theory Spec2Isabelle
  imports Main "HOL-Library.Word"
begin

section \<open>Library functions used by the handlers\<close>

text \<open>
  Go strings are byte sequences, so a Go \<^verbatim>\<open>string\<close> and a \<^verbatim>\<open>[]byte\<close> are both a
  \<^typ>\<open>string\<close> (a list of 8-bit characters) here. The functions of this section are not
  code of the repository: they are the parts of the Go standard library whose results the
  claims depend on, written after their documented behaviour.
\<close>

subsection \<open>strings.Split with a one-byte separator\<close>

text \<open>
  Both call sites (\<^verbatim>\<open>strings.Split(ratio, ":")\<close> and
  \<^verbatim>\<open>strings.Split(*video.VideoURL, ",")\<close>) pass a separator of one byte. The result is
  never empty: a string without the separator gives the one-element slice holding it.
\<close>

fun Split :: "string \<Rightarrow> char \<Rightarrow> string list" where
  "Split [] sep = [[]]"
| "Split (c # cs) sep =
     (if c = sep then [] # Split cs sep
      else (case Split cs sep of
              [] \<Rightarrow> [[c]]
            | part # parts \<Rightarrow> (c # part) # parts))"

subsection \<open>fmt.Sprintf("%d") and strconv.Atoi on the 64-bit int\<close>

fun decimal :: "nat \<Rightarrow> string" where
  "decimal n =
     (if n < 10 then [char_of (48 + n)]
      else decimal (n div 10) @ [char_of (48 + n mod 10)])"

definition Sprintf_d :: "int \<Rightarrow> string" where
  "Sprintf_d i = (if i < 0 then CHR ''-'' # decimal (nat (- i)) else decimal (nat i))"

definition is_digit :: "char \<Rightarrow> bool" where
  "is_digit c = (48 \<le> (of_char c :: nat) \<and> (of_char c :: nat) \<le> 57)"

definition digit_val :: "char \<Rightarrow> nat" where
  "digit_val c = of_char c - 48"

definition dec_value :: "string \<Rightarrow> nat" where
  "dec_value ds = foldl (\<lambda>n c. n * 10 + digit_val c) 0 ds"

definition ParseUint10 :: "string \<Rightarrow> nat option" where
  "ParseUint10 ds = (if ds = [] \<or> \<not> list_all is_digit ds then None else Some (dec_value ds))"

text \<open>
  \<^verbatim>\<open>strconv.Atoi\<close> returns \<^verbatim>\<open>(int, error)\<close>; the second component here is \<open>True\<close> when
  the error is nil. A syntax error gives 0, a value out of the 64-bit range gives the
  nearest bound, each with an error.
\<close>

definition Atoi :: "string \<Rightarrow> 64 word \<times> bool" where
  "Atoi s =
     (let (neg, ds) =
            (case s of
               [] \<Rightarrow> (False, s)
             | c # cs \<Rightarrow>
                 if c = CHR ''+'' then (False, cs)
                 else if c = CHR ''-'' then (True, cs)
                 else (False, s))
      in case ParseUint10 ds of
           None \<Rightarrow> (0, False)
         | Some n \<Rightarrow>
             if \<not> neg \<and> 2 ^ 63 \<le> n then (word_of_nat (2 ^ 63 - 1), False)
             else if neg \<and> 2 ^ 63 < n then (word_of_nat (2 ^ 63), False)
             else (if neg then - word_of_nat n else word_of_nat n, True))"

subsection \<open>filepath.Ext\<close>

text \<open>
  The extension is the suffix that begins at the last dot of the last path element, and
  is empty when that element has no dot. The scan runs from the end of the path and stops
  at a path separator.
\<close>

fun Ext_scan :: "string \<Rightarrow> string \<Rightarrow> string" where
  "Ext_scan [] suffix = []"
| "Ext_scan (c # rest) suffix =
     (if c = CHR ''/'' then []
      else if c = CHR ''.'' then c # suffix
      else Ext_scan rest (c # suffix))"

definition Ext :: "string \<Rightarrow> string" where
  "Ext path = Ext_scan (rev path) []"

subsection \<open>time.Hour\<close>

text \<open>A \<^verbatim>\<open>time.Duration\<close> counts nanoseconds.\<close>

definition time_Hour :: int where
  "time_Hour = 60 * 60 * 1000000000"

section \<open>Data model\<close>

type_synonym uuid = nat

datatype error = Error string

text \<open>
  Modelled from the spec: \<^verbatim>\<open>database.Video\<close> (package \<^verbatim>\<open>internal/database\<close>). The record
  has an identifier, an owning principal, a nullable thumbnail URL and a nullable video URL;
  its descriptive fields play no part in the handlers.
\<close>

record video =
  ID :: uuid
  UserID :: uuid
  ThumbnailURL :: "string option"
  VideoURL :: "string option"

text \<open>
  One part of a multipart form: the file name and the \<^verbatim>\<open>Content-Type\<close> header of its
  \<^verbatim>\<open>multipart.FileHeader\<close> (empty when the header is absent) and the bytes of its
  \<^verbatim>\<open>multipart.File\<close>.
\<close>

record upload =
  Filename :: string
  ContentType :: string
  Content :: string

record request =
  PathValue_videoID :: string
  Header :: "(string \<times> string) list"
  BodySize :: nat
  MultipartForm :: "(string \<times> upload) list option"

record apiConfig =
  jwtSecret :: string
  s3Bucket :: string
  s3Region :: string

record stream =
  Width :: "64 word"
  Height :: "64 word"

record ffprobeOutput =
  Streams :: "stream list"

text \<open>The calls that fail for reasons outside the program (disk, network, database).\<close>

datatype io_op =
  OpCreate | OpCopy | OpReadAll | OpCreateTemp | OpSeek | OpPutObject | OpUpdateVideo

text \<open>
  The external collaborators of the handlers, as parameters: packages \<^verbatim>\<open>uuid\<close>, \<^verbatim>\<open>auth\<close>,
  \<^verbatim>\<open>mime\<close>, \<^verbatim>\<open>base64\<close> and \<^verbatim>\<open>json\<close>, the asset-path helpers of the configuration, the two
  media tools, the presigner, and the random choices of a request (temp-file name, fresh
  UUID). A request runs each tool at most once, so a tool is given by what that run does:
  \<open>ffprobe\<close> by the standard output of a run that exits with 0, \<open>ffmpeg\<close> by whether it
  exits with 0 and by what it leaves at its output path, if anything (a failed run may
  leave a partial file).
\<close>

record env =
  uuid_Parse :: "string \<Rightarrow> uuid option"
  GetBearerToken :: "(string \<times> string) list \<Rightarrow> string option"
  ValidateJWT :: "string \<Rightarrow> string \<Rightarrow> uuid option"
  ParseMediaType :: "string \<Rightarrow> string option"
  getAssetPath :: "uuid \<Rightarrow> string \<Rightarrow> string"
  getAssetDiskPath :: "string \<Rightarrow> string"
  getAssetURL :: "string \<Rightarrow> string"
  base64_EncodeToString :: "string \<Rightarrow> string"
  fails :: "io_op \<Rightarrow> bool"
  tempName :: string
  uuid_New :: uuid
  Sprintf_x :: "uuid \<Rightarrow> string"
  filepath_Abs :: "string \<Rightarrow> string option"
  ffprobe :: "string \<Rightarrow> string option"
  json_Unmarshal :: "string \<Rightarrow> ffprobeOutput option"
  ffmpeg :: "string \<Rightarrow> string \<Rightarrow> bool \<times> string option"
  PresignGetObject :: "string \<Rightarrow> string \<Rightarrow> int \<Rightarrow> string option"

datatype body = ErrorBody string | VideoBody video

datatype event =
    EvParseMultipartForm
  | EvFormFile string
  | EvCreate string
  | EvCopy string
  | EvReadAll
  | EvGetVideo uuid "video option"
  | EvUpdateVideo video
  | EvCreateTemp string
  | EvSeek
  | EvProbe string
  | EvRemux string
  | EvOpen string
  | EvPutObject string string string
  | EvRemove string
  | EvRespond nat body
  | EvPanic

text \<open>
  What a handler reads and changes: the rows of the metadata store, the files on disk, the
  objects of the bucket store (bucket and key to bytes and content type), and the trace of
  the request: each step and each response written, in order.
\<close>

record state =
  db :: "video list"
  files :: "string \<rightharpoonup> string"
  objects :: "string \<times> string \<rightharpoonup> string \<times> string"
  trace :: "event list"

definition emit :: "event \<Rightarrow> state \<Rightarrow> state" where
  "emit e st = st\<lparr>trace := trace st @ [e]\<rparr>"

text \<open>
  The status of the response is the one of the first header written: a later
  \<^verbatim>\<open>WriteHeader\<close> on the same writer is ignored by \<^verbatim>\<open>net/http\<close>.
\<close>

fun first_status :: "event list \<Rightarrow> nat option" where
  "first_status [] = None"
| "first_status (EvRespond code b # es) = Some code"
| "first_status (e # es) = first_status es"

definition status :: "state \<Rightarrow> nat option" where
  "status st = first_status (trace st)"

fun first_body :: "event list \<Rightarrow> body option" where
  "first_body [] = None"
| "first_body (EvRespond code b # es) = Some b"
| "first_body (e # es) = first_body es"

definition response_body :: "state \<Rightarrow> body option" where
  "response_body st = first_body (trace st)"

definition panicked :: "state \<Rightarrow> bool" where
  "panicked st = (EvPanic \<in> set (trace st))"

section \<open>Helpers of the repository\<close>

text \<open>
  Modelled from the spec: \<^verbatim>\<open>respondWithJSON\<close> and \<^verbatim>\<open>respondWithError\<close> (not among the
  sources). A success answers with the JSON of the record, a failure with the envelope
  \<^verbatim>\<open>{error: string}\<close> and the failing status.
\<close>

definition respondWithJSON :: "nat \<Rightarrow> body \<Rightarrow> state \<Rightarrow> state" where
  "respondWithJSON code payload st = emit (EvRespond code payload) st"

definition respondWithError :: "nat \<Rightarrow> string \<Rightarrow> state \<Rightarrow> state" where
  "respondWithError code msg st = respondWithJSON code (ErrorBody msg) st"

text \<open>
  Modelled from the spec: the metadata store, \<^verbatim>\<open>GetVideo(id) \<rightarrow> record | NotFound\<close> and
  \<^verbatim>\<open>UpdateVideo(record) \<rightarrow> ok | error\<close>. The store is a table of rows; an update rewrites
  the rows that carry the record's identifier.
\<close>

definition GetVideo :: "uuid \<Rightarrow> state \<Rightarrow> video option \<times> state" where
  "GetVideo videoID st =
     (let r = find (\<lambda>v. ID v = videoID) (db st) in (r, emit (EvGetVideo videoID r) st))"

definition UpdateVideo :: "env \<Rightarrow> video \<Rightarrow> state \<Rightarrow> bool \<times> state" where
  "UpdateVideo e v st =
     (if fails e OpUpdateVideo then (False, emit (EvUpdateVideo v) st)
      else (True, emit (EvUpdateVideo v)
                    (st\<lparr>db := map (\<lambda>x. if ID x = ID v then v else x) (db st)\<rparr>)))"

section \<open>Presigned URLs\<close>

definition generatePresignedURL ::
  "env \<Rightarrow> string \<Rightarrow> string \<Rightarrow> int \<Rightarrow> error + string" where
  "generatePresignedURL e bucket key expireTime =
     (case PresignGetObject e bucket key expireTime of
        None \<Rightarrow> Inl (Error ''presign failed'')
      | Some url \<Rightarrow> Inr url)"

text \<open>
  \<^verbatim>\<open>dbVideoToSignedVideo\<close> returns \<^verbatim>\<open>(database.Video, error)\<close>: the second component is
  \<open>None\<close> when the error is nil.
\<close>

definition dbVideoToSignedVideo :: "env \<Rightarrow> video \<Rightarrow> video \<times> error option" where
  "dbVideoToSignedVideo e v =
     (case VideoURL v of
        None \<Rightarrow> (v, None)
      | Some u \<Rightarrow>
         (if u = [] then (v, None)
          else
            let parts = Split u CHR '','' in
            if length parts \<noteq> 2 then (v, Some (Error ''invalid stored video URL format''))
            else
              let bucket = parts ! 0; key = parts ! 1 in
              (case generatePresignedURL e bucket key time_Hour of
                 Inl err \<Rightarrow> (v, Some err)
               | Inr url \<Rightarrow> (v\<lparr>VideoURL := Some url\<rparr>, None))))"

section \<open>Steps with effects\<close>

text \<open>
  Each step returns its result and the state it leaves, and records itself in the trace
  whether it succeeds or not.
\<close>

text \<open>
  \<^verbatim>\<open>http.MaxBytesReader\<close>: reading a body beyond the limit fails, so a form in such a body
  does not parse.
\<close>

definition MaxBytesReader :: "nat \<Rightarrow> request \<Rightarrow> request" where
  "MaxBytesReader n r = (if n < BodySize r then r\<lparr>MultipartForm := None\<rparr> else r)"

definition ParseMultipartForm ::
  "request \<Rightarrow> state \<Rightarrow> (string \<times> upload) list option \<times> state" where
  "ParseMultipartForm r st = (MultipartForm r, emit EvParseMultipartForm st)"

text \<open>
  \<^verbatim>\<open>r.FormFile(key)\<close> gives the first file of the field; when the field has none it
  returns \<^verbatim>\<open>nil, nil, ErrMissingFile\<close>.
\<close>

definition FormFile ::
  "(string \<times> upload) list \<Rightarrow> string \<Rightarrow> state \<Rightarrow> upload option \<times> state" where
  "FormFile form key st = (map_of form key, emit (EvFormFile key) st)"

text \<open>\<^verbatim>\<open>os.Create\<close> creates the file, or truncates it when it exists.\<close>

definition os_Create :: "env \<Rightarrow> string \<Rightarrow> state \<Rightarrow> bool \<times> state" where
  "os_Create e path st =
     (if fails e OpCreate then (False, emit (EvCreate path) st)
      else (True, emit (EvCreate path) (st\<lparr>files := (files st)(path \<mapsto> [])\<rparr>)))"

text \<open>
  \<^verbatim>\<open>io.Copy\<close> into a file that was just created: the file holds the bytes copied. What a
  failed copy has written before it fails is not modelled.
\<close>

definition io_Copy :: "env \<Rightarrow> string \<Rightarrow> string \<Rightarrow> state \<Rightarrow> bool \<times> state" where
  "io_Copy e path bytes st =
     (if fails e OpCopy then (False, emit (EvCopy path) st)
      else (True, emit (EvCopy path) (st\<lparr>files := (files st)(path \<mapsto> bytes)\<rparr>)))"

definition io_ReadAll :: "env \<Rightarrow> upload \<Rightarrow> state \<Rightarrow> string option \<times> state" where
  "io_ReadAll e f st =
     (if fails e OpReadAll then (None, emit EvReadAll st)
      else (Some (Content f), emit EvReadAll st))"

text \<open>
  \<^verbatim>\<open>os.CreateTemp\<close> creates a file that did not exist under a random name; the name the
  request draws is \<^term>\<open>tempName e\<close>.
\<close>

definition os_CreateTemp :: "env \<Rightarrow> state \<Rightarrow> string option \<times> state" where
  "os_CreateTemp e st =
     (if fails e OpCreateTemp \<or> files st (tempName e) \<noteq> None
      then (None, emit (EvCreateTemp (tempName e)) st)
      else (Some (tempName e),
            emit (EvCreateTemp (tempName e)) (st\<lparr>files := (files st)(tempName e \<mapsto> [])\<rparr>)))"

definition Seek :: "env \<Rightarrow> state \<Rightarrow> bool \<times> state" where
  "Seek e st = (if fails e OpSeek then (False, emit EvSeek st) else (True, emit EvSeek st))"

definition os_Remove :: "string \<Rightarrow> state \<Rightarrow> state" where
  "os_Remove path st = emit (EvRemove path) (st\<lparr>files := (files st)(path := None)\<rparr>)"

definition os_Open :: "string \<Rightarrow> state \<Rightarrow> string option \<times> state" where
  "os_Open path st = (files st path, emit (EvOpen path) st)"

definition contents :: "state \<Rightarrow> string \<Rightarrow> string" where
  "contents st path = (case files st path of None \<Rightarrow> [] | Some bytes \<Rightarrow> bytes)"

definition PutObject ::
  "env \<Rightarrow> string \<Rightarrow> string \<Rightarrow> string \<Rightarrow> string \<Rightarrow> state \<Rightarrow> bool \<times> state" where
  "PutObject e bucket key bytes ctype st =
     (if fails e OpPutObject then (False, emit (EvPutObject bucket key ctype) st)
      else (True, emit (EvPutObject bucket key ctype)
                    (st\<lparr>objects := (objects st)((bucket, key) \<mapsto> (bytes, ctype))\<rparr>)))"

text \<open>
  A nil interface value has no method to call: \<^verbatim>\<open>defer multipartFile.Close()\<close> on the nil
  file that a failed \<^verbatim>\<open>FormFile\<close> returns panics. No deferred call is registered at that
  point, so the handler ends there and the server recovers the panic.
\<close>

definition panic :: "state \<Rightarrow> state" where
  "panic st = emit EvPanic st"

section \<open>The media tools\<close>

definition getVideoAspectRatio :: "env \<Rightarrow> string \<Rightarrow> state \<Rightarrow> (error + string) \<times> state" where
  "getVideoAspectRatio e filePath st =
     (case filepath_Abs e filePath of
        None \<Rightarrow> (Inl (Error ''filepath.Abs''), st)
      | Some absPath \<Rightarrow>
     (let st1 = emit (EvProbe absPath) st in
      case ffprobe e absPath of
        None \<Rightarrow> (Inl (Error ''failed to execute ffprobe''), st1)
      | Some out \<Rightarrow>
     (case json_Unmarshal e out of
        None \<Rightarrow> (Inl (Error ''failed to parse ffprobe output''), st1)
      | Some data \<Rightarrow>
     (if length (Streams data) = 0 then (Inl (Error ''no streams found in video''), st1)
      else
     (let width = Width (Streams data ! 0);
          height = Height (Streams data ! 0)
      in
      if width = 0 \<or> height = 0
      then (Inl (Error ''width or height is zero, cannot determine aspect ratio''), st1)
      else (Inr (Sprintf_d (sint width) @ '':'' @ Sprintf_d (sint height)), st1))))))"

definition processVideoForFastStart ::
  "env \<Rightarrow> string \<Rightarrow> state \<Rightarrow> (error + string) \<times> state" where
  "processVideoForFastStart e filePath st =
     (case filepath_Abs e filePath of
        None \<Rightarrow> (Inl (Error ''filepath.Abs''), st)
      | Some absPath \<Rightarrow>
     (let processedPath = absPath @ ''.processing'';
          ran = ffmpeg e absPath processedPath;
          st1 = emit (EvRemux processedPath)
                  (case snd ran of
                     None \<Rightarrow> st
                   | Some bytes \<Rightarrow> st\<lparr>files := (files st)(processedPath \<mapsto> bytes)\<rparr>)
      in
      if \<not> fst ran then (Inl (Error ''failed to execute ffmpeg''), st1)
      else (Inr processedPath, st1)))"

text \<open>
  The block \<^verbatim>\<open>Categorize Orientation\<close> of the two later video handlers; they differ in the
  last character of the prefix only. The errors of \<^verbatim>\<open>strconv.Atoi\<close> are dropped, as in the
  source, and the comparison is the one of the signed 64-bit int.
\<close>

definition orientation_slash :: "string \<Rightarrow> string" where
  "orientation_slash ratio =
     (let parts = Split ratio CHR '':'' in
      if length parts = 2 then
        let w = fst (Atoi (parts ! 0)); h = fst (Atoi (parts ! 1)) in
        if sint h < sint w then ''landscape/''
        else if sint w < sint h then ''portrait/''
        else ''other/''
      else ''other/'')"

definition orientation_dash :: "string \<Rightarrow> string" where
  "orientation_dash ratio =
     (let parts = Split ratio CHR '':'' in
      if length parts = 2 then
        let w = fst (Atoi (parts ! 0)); h = fst (Atoi (parts ! 1)) in
        if sint h < sint w then ''landscape-''
        else if sint w < sint h then ''portrait-''
        else ''other-''
      else ''other-'')"

section \<open>The thumbnail handlers\<close>

text \<open>
  A handler starts with an empty trace (a fresh response writer). A \<^verbatim>\<open>return\<close> after an
  error response ends the function with the state reached. The source of both thumbnail
  handlers has no \<^verbatim>\<open>return\<close> after the error response for a failed \<^verbatim>\<open>FormFile\<close>: control
  goes on to the \<^verbatim>\<open>defer\<close> on the nil file.
\<close>

text \<open>The handler of \<^verbatim>\<open>handler_upload_thumbnail.go\<close>: the thumbnail is a file on disk.\<close>

definition handlerUploadThumbnail :: "env \<Rightarrow> apiConfig \<Rightarrow> request \<Rightarrow> state \<Rightarrow> state" where
  "handlerUploadThumbnail e cfg r st0 =
     (let st = st0\<lparr>trace := []\<rparr> in
      case uuid_Parse e (PathValue_videoID r) of
        None \<Rightarrow> respondWithError 400 ''Invalid ID'' st
      | Some videoID \<Rightarrow>
     (case GetBearerToken e (Header r) of
        None \<Rightarrow> respondWithError 401 ''Couldn't find JWT'' st
      | Some token \<Rightarrow>
     (case ValidateJWT e token (jwtSecret cfg) of
        None \<Rightarrow> respondWithError 401 ''Couldn't validate JWT'' st
      | Some userID \<Rightarrow>
     (case ParseMultipartForm r st of
        (None, st1) \<Rightarrow> respondWithError 400 ''Couldn't parse form'' st1
      | (Some form, st1) \<Rightarrow>
     (case FormFile form ''thumbnail'' st1 of
        (None, st2) \<Rightarrow> panic (respondWithError 400 ''Couldn't parse thumbnail'' st2)
      | (Some multipartFile, st2) \<Rightarrow>
     (let mediaType = ContentType multipartFile in
      if mediaType = [] then respondWithError 400 ''Missing Content-Type for thumbnail'' st2
      else
     (case ParseMediaType e mediaType of
        None \<Rightarrow> respondWithError 400 ''Unable to read mime in Content-Type'' st2
      | Some mediaTypeCheck \<Rightarrow>
     (if mediaTypeCheck \<noteq> ''image/jpeg'' \<and> mediaTypeCheck \<noteq> ''image/png''
      then respondWithError 400 ''Invalid file type'' st2
      else
     (let assetPath = getAssetPath e videoID mediaType;
          thumbnailDiskPath = getAssetDiskPath e assetPath
      in
      case os_Create e thumbnailDiskPath st2 of
        (False, st3) \<Rightarrow> respondWithError 500 ''Unable to create file on server'' st3
      | (True, st3) \<Rightarrow>
     (case io_Copy e thumbnailDiskPath (Content multipartFile) st3 of
        (False, st4) \<Rightarrow> respondWithError 500 ''Error saving file'' st4
      | (True, st4) \<Rightarrow>
     (case GetVideo videoID st4 of
        (None, st5) \<Rightarrow> respondWithError 500 ''Couldn't find video'' st5
      | (Some v, st5) \<Rightarrow>
     (if UserID v \<noteq> userID
      then respondWithError 401 ''Not authorized to update this video'' st5
      else
     (let dataURL = getAssetURL e assetPath;
          v' = v\<lparr>ThumbnailURL := Some dataURL\<rparr>
      in
      case UpdateVideo e v' st5 of
        (False, st6) \<Rightarrow> respondWithError 500 ''Couldn't update video'' st6
      | (True, st6) \<Rightarrow> respondWithJSON 200 (VideoBody v') st6)))))))))))))"

text \<open>The earlier thumbnail handler: the thumbnail is a data URL in the record.\<close>

definition handlerUploadThumbnail_dataURL ::
  "env \<Rightarrow> apiConfig \<Rightarrow> request \<Rightarrow> state \<Rightarrow> state" where
  "handlerUploadThumbnail_dataURL e cfg r st0 =
     (let st = st0\<lparr>trace := []\<rparr> in
      case uuid_Parse e (PathValue_videoID r) of
        None \<Rightarrow> respondWithError 400 ''Invalid ID'' st
      | Some videoID \<Rightarrow>
     (case GetBearerToken e (Header r) of
        None \<Rightarrow> respondWithError 401 ''Couldn't find JWT'' st
      | Some token \<Rightarrow>
     (case ValidateJWT e token (jwtSecret cfg) of
        None \<Rightarrow> respondWithError 401 ''Couldn't validate JWT'' st
      | Some userID \<Rightarrow>
     (case ParseMultipartForm r st of
        (None, st1) \<Rightarrow> respondWithError 400 ''Couldn't parse form'' st1
      | (Some form, st1) \<Rightarrow>
     (case FormFile form ''thumbnail'' st1 of
        (None, st2) \<Rightarrow> panic (respondWithError 400 ''Couldn't parse thumbnail'' st2)
      | (Some multipartFile, st2) \<Rightarrow>
     (let mediaType = ContentType multipartFile in
      if mediaType = [] then respondWithError 400 ''Missing Content-Type for thumbnail'' st2
      else
     (case io_ReadAll e multipartFile st2 of
        (None, st3) \<Rightarrow> respondWithError 500 ''Couldn't read file'' st3
      | (Some fileBytesThumbnail, st3) \<Rightarrow>
     (case GetVideo videoID st3 of
        (None, st4) \<Rightarrow> respondWithError 500 ''Couldn't find video'' st4
      | (Some v, st4) \<Rightarrow>
     (if UserID v \<noteq> userID
      then respondWithError 401 ''Not authorized to update this video'' st4
      else
     (let base64Thumbnail = base64_EncodeToString e fileBytesThumbnail;
          dataURL = ''data:'' @ mediaType @ '';base64,'' @ base64Thumbnail;
          v' = v\<lparr>ThumbnailURL := Some dataURL\<rparr>
      in
      case UpdateVideo e v' st4 of
        (False, st5) \<Rightarrow> respondWithError 500 ''Couldn't update video'' st5
      | (True, st5) \<Rightarrow> respondWithJSON 200 (VideoBody v') st5))))))))))"

section \<open>The video handlers\<close>

definition maxUploadSize :: nat where
  "maxUploadSize = 2 ^ 30"

text \<open>
  A deferred call runs when the function returns, whatever the branch: the rest of the
  function after a \<^verbatim>\<open>defer\<close> is the argument of the deferred step, and is a
  definition of its own here, named after the handler (\<open>_staged\<close>: what runs while the temp
  file exists; \<open>_processed\<close>: what runs while the fast-start copy exists). The deferred
  \<^verbatim>\<open>Close\<close> calls change nothing that the model observes.
\<close>

text \<open>The first video handler: the object key has no prefix, the stored URL is direct.\<close>

definition handlerUploadVideo_direct_staged ::
  "env \<Rightarrow> apiConfig \<Rightarrow> video \<Rightarrow> upload \<Rightarrow> string \<Rightarrow> string \<Rightarrow> state \<Rightarrow> state" where
  "handlerUploadVideo_direct_staged e cfg v videoFile mediaType tempFile st4 =
     (case io_Copy e tempFile (Content videoFile) st4 of
        (False, st5) \<Rightarrow> respondWithError 500 ''Failed to write video to temporary file'' st5
      | (True, st5) \<Rightarrow>
     (case Seek e st5 of
        (False, st6) \<Rightarrow> respondWithError 500 ''Failed to reset file pointer'' st6
      | (True, st6) \<Rightarrow>
     (let videoKey = Sprintf_x e (uuid_New e) @ Ext (Filename videoFile) in
      case PutObject e (s3Bucket cfg) videoKey (contents st6 tempFile) mediaType st6 of
        (False, st7) \<Rightarrow> respondWithError 500 ''Failed to upload video to S3'' st7
      | (True, st7) \<Rightarrow>
     (let videoURL = ''https://'' @ s3Bucket cfg @ ''.s3.'' @ s3Region cfg
                       @ ''.amazonaws.com/'' @ videoKey;
          v' = v\<lparr>VideoURL := Some videoURL\<rparr>
      in
      case UpdateVideo e v' st7 of
        (False, st8) \<Rightarrow> respondWithError 500 ''Failed to update video record'' st8
      | (True, st8) \<Rightarrow> respondWithJSON 200 (VideoBody v') st8))))"

definition handlerUploadVideo_direct ::
  "env \<Rightarrow> apiConfig \<Rightarrow> request \<Rightarrow> state \<Rightarrow> state" where
  "handlerUploadVideo_direct e cfg r0 st0 =
     (let st = st0\<lparr>trace := []\<rparr>;
          r = MaxBytesReader maxUploadSize r0
      in
      case uuid_Parse e (PathValue_videoID r) of
        None \<Rightarrow> respondWithError 400 ''Invalid video ID'' st
      | Some videoID \<Rightarrow>
     (case GetBearerToken e (Header r) of
        None \<Rightarrow> respondWithError 401 ''Missing or invalid authorization header'' st
      | Some token \<Rightarrow>
     (case ValidateJWT e token (jwtSecret cfg) of
        None \<Rightarrow> respondWithError 401 ''Couldn't validate JWT'' st
      | Some userID \<Rightarrow>
     (case GetVideo videoID st of
        (None, st1) \<Rightarrow> respondWithError 404 ''Couldn't find video'' st1
      | (Some v, st1) \<Rightarrow>
     (if UserID v \<noteq> userID
      then respondWithError 401 ''Not authorized to modify this video'' st1
      else
     (case ParseMultipartForm r st1 of
        (None, st2) \<Rightarrow> respondWithError 400 ''Failed to parse multipart form'' st2
      | (Some form, st2) \<Rightarrow>
     (case FormFile form ''video'' st2 of
        (None, st3) \<Rightarrow> respondWithError 400 ''Missing 'video' file in form data'' st3
      | (Some videoFile, st3) \<Rightarrow>
     (let contentType = ContentType videoFile in
      if contentType = [] then respondWithError 400 ''Missing Content-Type header'' st3
      else
     (case ParseMediaType e contentType of
        None \<Rightarrow> respondWithError 400 ''Invalid file type: only video/mp4 allowed'' st3
      | Some mediaType \<Rightarrow>
     (if mediaType \<noteq> ''video/mp4''
      then respondWithError 400 ''Invalid file type: only video/mp4 allowed'' st3
      else
     (case os_CreateTemp e st3 of
        (None, st4) \<Rightarrow> respondWithError 500 ''Failed to create temporary file'' st4
      | (Some tempFile, st4) \<Rightarrow> os_Remove tempFile
          (handlerUploadVideo_direct_staged e cfg v videoFile mediaType tempFile st4))))))))))))"

text \<open>
  The second video handler: the key carries the orientation prefix that ends in a slash,
  the stored URL is direct.
\<close>

definition handlerUploadVideo_aspect_staged ::
  "env \<Rightarrow> apiConfig \<Rightarrow> video \<Rightarrow> upload \<Rightarrow> string \<Rightarrow> string \<Rightarrow> state \<Rightarrow> state" where
  "handlerUploadVideo_aspect_staged e cfg v videoFile mediaType tempFile st4 =
     (case io_Copy e tempFile (Content videoFile) st4 of
        (False, st5) \<Rightarrow> respondWithError 500 ''Failed to write video to temporary file'' st5
      | (True, st5) \<Rightarrow>
     (case Seek e st5 of
        (False, st6) \<Rightarrow> respondWithError 500 ''Failed to reset file pointer'' st6
      | (True, st6) \<Rightarrow>
     (case getVideoAspectRatio e tempFile st6 of
        (Inl err, st7) \<Rightarrow> respondWithError 500 ''Failed to read video metadata'' st7
      | (Inr ratio, st7) \<Rightarrow>
     (let prefix = orientation_slash ratio;
          videoKey = prefix @ Sprintf_x e (uuid_New e) @ Ext (Filename videoFile)
      in
      case PutObject e (s3Bucket cfg) videoKey (contents st7 tempFile) mediaType st7 of
        (False, st8) \<Rightarrow> respondWithError 500 ''Failed to upload video to S3'' st8
      | (True, st8) \<Rightarrow>
     (let videoURL = ''https://'' @ s3Bucket cfg @ ''.s3.'' @ s3Region cfg
                       @ ''.amazonaws.com/'' @ videoKey;
          v' = v\<lparr>VideoURL := Some videoURL\<rparr>
      in
      case UpdateVideo e v' st8 of
        (False, st9) \<Rightarrow> respondWithError 500 ''Failed to update video record'' st9
      | (True, st9) \<Rightarrow> respondWithJSON 200 (VideoBody v') st9)))))"

definition handlerUploadVideo_aspect ::
  "env \<Rightarrow> apiConfig \<Rightarrow> request \<Rightarrow> state \<Rightarrow> state" where
  "handlerUploadVideo_aspect e cfg r0 st0 =
     (let st = st0\<lparr>trace := []\<rparr>;
          r = MaxBytesReader maxUploadSize r0
      in
      case uuid_Parse e (PathValue_videoID r) of
        None \<Rightarrow> respondWithError 400 ''Invalid video ID'' st
      | Some videoID \<Rightarrow>
     (case GetBearerToken e (Header r) of
        None \<Rightarrow> respondWithError 401 ''Missing or invalid authorization header'' st
      | Some token \<Rightarrow>
     (case ValidateJWT e token (jwtSecret cfg) of
        None \<Rightarrow> respondWithError 401 ''Couldn't validate JWT'' st
      | Some userID \<Rightarrow>
     (case GetVideo videoID st of
        (None, st1) \<Rightarrow> respondWithError 404 ''Couldn't find video'' st1
      | (Some v, st1) \<Rightarrow>
     (if UserID v \<noteq> userID
      then respondWithError 401 ''Not authorized to modify this video'' st1
      else
     (case ParseMultipartForm r st1 of
        (None, st2) \<Rightarrow> respondWithError 400 ''Failed to parse multipart form'' st2
      | (Some form, st2) \<Rightarrow>
     (case FormFile form ''video'' st2 of
        (None, st3) \<Rightarrow> respondWithError 400 ''Missing 'video' file in form data'' st3
      | (Some videoFile, st3) \<Rightarrow>
     (let contentType = ContentType videoFile in
      if contentType = [] then respondWithError 400 ''Missing Content-Type header'' st3
      else
     (case ParseMediaType e contentType of
        None \<Rightarrow> respondWithError 400 ''Invalid file type: only video/mp4 allowed'' st3
      | Some mediaType \<Rightarrow>
     (if mediaType \<noteq> ''video/mp4''
      then respondWithError 400 ''Invalid file type: only video/mp4 allowed'' st3
      else
     (case os_CreateTemp e st3 of
        (None, st4) \<Rightarrow> respondWithError 500 ''Failed to create temporary file'' st4
      | (Some tempFile, st4) \<Rightarrow> os_Remove tempFile
          (handlerUploadVideo_aspect_staged e cfg v videoFile mediaType tempFile st4))))))))))))"

text \<open>
  The third video handler: the prefix ends in a dash, the upload is the fast-start copy,
  the stored value is the composite of bucket and key, and the answer carries a presigned
  URL.
\<close>

definition handlerUploadVideo_processed ::
  "env \<Rightarrow> apiConfig \<Rightarrow> video \<Rightarrow> upload \<Rightarrow> string \<Rightarrow> string \<Rightarrow> string \<Rightarrow> state \<Rightarrow> state" where
  "handlerUploadVideo_processed e cfg v videoFile mediaType prefix processedPath st8 =
     (case os_Open processedPath st8 of
        (None, st9) \<Rightarrow> respondWithError 500 ''Failed to read processed video'' st9
      | (Some processedFile, st9) \<Rightarrow>
     (let videoKey = prefix @ Sprintf_x e (uuid_New e) @ Ext (Filename videoFile) in
      case PutObject e (s3Bucket cfg) videoKey processedFile mediaType st9 of
        (False, st10) \<Rightarrow> respondWithError 500 ''Failed to upload video to S3'' st10
      | (True, st10) \<Rightarrow>
     (let bucketAndKey = s3Bucket cfg @ '','' @ videoKey;
          v' = v\<lparr>VideoURL := Some bucketAndKey\<rparr>
      in
      case UpdateVideo e v' st10 of
        (False, st11) \<Rightarrow> respondWithError 500 ''Failed to update video record'' st11
      | (True, st11) \<Rightarrow>
     (case dbVideoToSignedVideo e v' of
        (signedVideo, Some err) \<Rightarrow> respondWithError 500 ''Failed to sign video URL'' st11
      | (signedVideo, None) \<Rightarrow> respondWithJSON 200 (VideoBody signedVideo) st11))))"

definition handlerUploadVideo_staged ::
  "env \<Rightarrow> apiConfig \<Rightarrow> video \<Rightarrow> upload \<Rightarrow> string \<Rightarrow> string \<Rightarrow> state \<Rightarrow> state" where
  "handlerUploadVideo_staged e cfg v videoFile mediaType tempFile st4 =
     (case io_Copy e tempFile (Content videoFile) st4 of
        (False, st5) \<Rightarrow> respondWithError 500 ''Failed to write video to temporary file'' st5
      | (True, st5) \<Rightarrow>
     (case Seek e st5 of
        (False, st6) \<Rightarrow> respondWithError 500 ''Failed to reset file pointer'' st6
      | (True, st6) \<Rightarrow>
     (case getVideoAspectRatio e tempFile st6 of
        (Inl err, st7) \<Rightarrow> respondWithError 500 ''Failed to read video metadata'' st7
      | (Inr ratio, st7) \<Rightarrow>
     (let prefix = orientation_dash ratio in
      case processVideoForFastStart e tempFile st7 of
        (Inl err, st8) \<Rightarrow> respondWithError 500 ''Failed to process video'' st8
      | (Inr processedPath, st8) \<Rightarrow> os_Remove processedPath
          (handlerUploadVideo_processed e cfg v videoFile mediaType prefix processedPath st8)))))"

definition handlerUploadVideo ::
  "env \<Rightarrow> apiConfig \<Rightarrow> request \<Rightarrow> state \<Rightarrow> state" where
  "handlerUploadVideo e cfg r0 st0 =
     (let st = st0\<lparr>trace := []\<rparr>;
          r = MaxBytesReader maxUploadSize r0
      in
      case uuid_Parse e (PathValue_videoID r) of
        None \<Rightarrow> respondWithError 400 ''Invalid video ID'' st
      | Some videoID \<Rightarrow>
     (case GetBearerToken e (Header r) of
        None \<Rightarrow> respondWithError 401 ''Missing or invalid authorization header'' st
      | Some token \<Rightarrow>
     (case ValidateJWT e token (jwtSecret cfg) of
        None \<Rightarrow> respondWithError 401 ''Couldn't validate JWT'' st
      | Some userID \<Rightarrow>
     (case GetVideo videoID st of
        (None, st1) \<Rightarrow> respondWithError 404 ''Couldn't find video'' st1
      | (Some v, st1) \<Rightarrow>
     (if UserID v \<noteq> userID
      then respondWithError 401 ''Not authorized to modify this video'' st1
      else
     (case ParseMultipartForm r st1 of
        (None, st2) \<Rightarrow> respondWithError 400 ''Failed to parse multipart form'' st2
      | (Some form, st2) \<Rightarrow>
     (case FormFile form ''video'' st2 of
        (None, st3) \<Rightarrow> respondWithError 400 ''Missing 'video' file in form data'' st3
      | (Some videoFile, st3) \<Rightarrow>
     (let contentType = ContentType videoFile in
      if contentType = [] then respondWithError 400 ''Missing Content-Type header'' st3
      else
     (case ParseMediaType e contentType of
        None \<Rightarrow> respondWithError 400 ''Invalid file type: only video/mp4 allowed'' st3
      | Some mediaType \<Rightarrow>
     (if mediaType \<noteq> ''video/mp4''
      then respondWithError 400 ''Invalid file type: only video/mp4 allowed'' st3
      else
     (case os_CreateTemp e st3 of
        (None, st4) \<Rightarrow> respondWithError 500 ''Failed to create temporary file'' st4
      | (Some tempFile, st4) \<Rightarrow> os_Remove tempFile
          (handlerUploadVideo_staged e cfg v videoFile mediaType tempFile st4))))))))))))"

section \<open>The five handlers under one name\<close>

datatype variant =
  ThumbnailDisk | ThumbnailDataURL | VideoDirect | VideoAspect | VideoPresigned

fun handler :: "variant \<Rightarrow> env \<Rightarrow> apiConfig \<Rightarrow> request \<Rightarrow> state \<Rightarrow> state" where
  "handler ThumbnailDisk = handlerUploadThumbnail"
| "handler ThumbnailDataURL = handlerUploadThumbnail_dataURL"
| "handler VideoDirect = handlerUploadVideo_direct"
| "handler VideoAspect = handlerUploadVideo_aspect"
| "handler VideoPresigned = handlerUploadVideo"

text \<open>The principal that the bearer credential of a request authenticates, if any.\<close>

definition principal :: "env \<Rightarrow> apiConfig \<Rightarrow> request \<Rightarrow> uuid option" where
  "principal e cfg r =
     (case GetBearerToken e (Header r) of
        None \<Rightarrow> None
      | Some token \<Rightarrow> ValidateJWT e token (jwtSecret cfg))"

text \<open>
  What the probe reports for the staged file of a request: width and height of the first
  stream, when the tool runs, its output parses and it lists a stream.
\<close>

definition probed_size :: "env \<Rightarrow> (64 word \<times> 64 word) option" where
  "probed_size e =
     (case filepath_Abs e (tempName e) of
        None \<Rightarrow> None
      | Some absPath \<Rightarrow>
          (case ffprobe e absPath of
             None \<Rightarrow> None
           | Some out \<Rightarrow>
               (case json_Unmarshal e out of
                  None \<Rightarrow> None
                | Some data \<Rightarrow>
                    (case Streams data of
                       [] \<Rightarrow> None
                     | s # ss \<Rightarrow> Some (Width s, Height s)))))"

section \<open>Predicates on the outcome of a handler\<close>

text \<open>No object was put, and no probe was run, in the request that led to a state.\<close>

definition no_put :: "state \<Rightarrow> bool" where
  "no_put s \<longleftrightarrow> (\<forall>b k c. EvPutObject b k c \<notin> set (trace s))"

definition no_probe :: "state \<Rightarrow> bool" where
  "no_probe s \<longleftrightarrow> (\<forall>p. EvProbe p \<notin> set (trace s))"

text \<open>Every object put in the request of the first state was put in that of the second.\<close>

definition puts_within :: "state \<Rightarrow> state \<Rightarrow> bool" where
  "puts_within s' s \<longleftrightarrow>
     (\<forall>b k c. EvPutObject b k c \<in> set (trace s') \<longrightarrow> EvPutObject b k c \<in> set (trace s))"

text \<open>
  How a video handler ends, seen from the point where the temp file is created: either it
  has answered with an error status, changed no record, put no object and run no probe; or
  it has loaded the record the request names and is the deferred removal of the temp file
  around the part that runs while the file exists, started in a state without a response.
\<close>

definition staging_outcome ::
  "(video \<Rightarrow> upload \<Rightarrow> state \<Rightarrow> state) \<Rightarrow> env \<Rightarrow> request \<Rightarrow> state \<Rightarrow> state \<Rightarrow> bool" where
  "staging_outcome staged e r st s \<longleftrightarrow>
     (status s \<in> {Some 400, Some 401, Some 404, Some 500} \<and> db s = db st \<and>
      no_put s \<and> no_probe s) \<or>
     (\<exists>i v f st4.
        uuid_Parse e (PathValue_videoID r) = Some i \<and>
        find (\<lambda>x. ID x = i) (db st) = Some v \<and>
        s = os_Remove (tempName e) (staged v f st4) \<and>
        first_status (trace st4) = None \<and> db st4 = db st \<and> no_put st4)"

section \<open>A concrete environment and concrete requests\<close>

text \<open>
  Stand-ins for the collaborators, small enough to evaluate: two known video identifiers,
  two principals, a parser that knows four media types, tools that succeed on a
  1920 by 1080 stream, and no failing call. The instances below run the handlers on them.
\<close>

definition example_env :: env where
  "example_env =
     \<lparr>uuid_Parse = (\<lambda>s. if s = ''V1'' then Some 1 else if s = ''V2'' then Some 2 else None),
      GetBearerToken =
        (\<lambda>h. case map_of h ''Authorization'' of
                None \<Rightarrow> None
              | Some s \<Rightarrow> if take 7 s = ''Bearer '' then Some (drop 7 s) else None),
      ValidateJWT =
        (\<lambda>token secret.
           if token = ''alice'' then Some 7 else if token = ''bob'' then Some 8 else None),
      ParseMediaType =
        (\<lambda>s. if s = ''image/png'' \<or> s = ''image/jpeg'' \<or> s = ''video/mp4''
                  \<or> s = ''text/plain''
               then Some s else None),
      getAssetPath = (\<lambda>videoID mediaType. decimal videoID @ ''.png''),
      getAssetDiskPath = (\<lambda>assetPath. ''assets/'' @ assetPath),
      getAssetURL = (\<lambda>assetPath. ''http://localhost:8091/assets/'' @ assetPath),
      base64_EncodeToString = (\<lambda>bytes. ''aGk='' ),
      fails = (\<lambda>op. False),
      tempName = ''/tmp/tubely-upload-1.mp4'',
      uuid_New = 42,
      Sprintf_x = (\<lambda>u. ''2a''),
      filepath_Abs = Some,
      ffprobe = (\<lambda>path. Some ''{}''),
      json_Unmarshal = (\<lambda>out. Some \<lparr>Streams = [\<lparr>Width = 1920, Height = 1080\<rparr>]\<rparr>),
      ffmpeg = (\<lambda>input output. (True, Some ''faststart'')),
      PresignGetObject = (\<lambda>bucket key ttl. Some (''https://signed/'' @ bucket @ ''/'' @ key))\<rparr>"

definition example_cfg :: apiConfig where
  "example_cfg = \<lparr>jwtSecret = ''secret'', s3Bucket = ''tubely'', s3Region = ''us-east-2''\<rparr>"

text \<open>A store with one record, \<open>V1\<close>, owned by the principal 7.\<close>

definition example_video :: video where
  "example_video = \<lparr>ID = 1, UserID = 7, ThumbnailURL = None, VideoURL = None\<rparr>"

definition example_state :: state where
  "example_state =
     \<lparr>db = [example_video], files = Map.empty, objects = Map.empty, trace = []\<rparr>"

definition thumbnail_request :: "string \<Rightarrow> string \<Rightarrow> string \<Rightarrow> request" where
  "thumbnail_request videoID token ctype =
     \<lparr>PathValue_videoID = videoID,
      Header = [(''Authorization'', ''Bearer '' @ token)],
      BodySize = 100,
      MultipartForm =
        Some [(''thumbnail'', \<lparr>Filename = ''t.png'', ContentType = ctype, Content = ''IMG''\<rparr>)]\<rparr>"

definition video_request :: "string \<Rightarrow> string \<Rightarrow> request" where
  "video_request token filename =
     \<lparr>PathValue_videoID = ''V1'',
      Header = [(''Authorization'', ''Bearer '' @ token)],
      BodySize = 100,
      MultipartForm =
        Some [(''video'', \<lparr>Filename = filename, ContentType = ''video/mp4'', Content = ''MP4''\<rparr>)]\<rparr>"

text \<open>A form that parses and has no file in the field \<open>thumbnail\<close>.\<close>

definition request_without_file :: request where
  "request_without_file =
     \<lparr>PathValue_videoID = ''V1'',
      Header = [(''Authorization'', ''Bearer alice'')],
      BodySize = 100,
      MultipartForm = Some []\<rparr>"

text \<open>The probe reports a stream of width zero.\<close>

definition example_env_zero_width :: env where
  "example_env_zero_width =
     example_env\<lparr>json_Unmarshal := \<lambda>out. Some \<lparr>Streams = [\<lparr>Width = 0, Height = 1080\<rparr>]\<rparr>\<rparr>"

text \<open>The remux tool exits with an error and leaves a partial output file.\<close>

definition example_env_remux_fails :: env where
  "example_env_remux_fails = example_env\<lparr>ffmpeg := \<lambda>input output. (False, Some ''partial'')\<rparr>"

section \<open>Facts about the library functions\<close>

lemma Split_not_Nil: "Split s sep \<noteq> []"
  by (induction s) (auto split: list.splits)

lemma length_Split: "length (Split s sep) = Suc (count_list s sep)"
  by (induction s) (auto split: list.splits)

lemma Split_no_sep: "sep \<notin> set s \<Longrightarrow> Split s sep = [s]"
  by (induction s) auto

lemma Split_append:
  "sep \<notin> set a \<Longrightarrow> Split (a @ sep # b) sep = a # Split b sep"
  by (induction a) auto

lemma Split_two: "sep \<notin> set a \<Longrightarrow> sep \<notin> set b \<Longrightarrow> Split (a @ sep # b) sep = [a, b]"
  by (simp add: Split_append Split_no_sep)

lemma length_Split_join:
  "length (Split (a @ sep # b) sep) = 2 \<longleftrightarrow> sep \<notin> set a \<and> sep \<notin> set b"
  by (auto simp: length_Split count_list_0_iff)

subsection \<open>Decimal rendering and parsing are inverse on the 64-bit int\<close>

declare decimal.simps [simp del]

lemma digit_char_props:
  assumes "d < 10"
  shows "is_digit (char_of (48 + d))" and "digit_val (char_of (48 + d)) = d"
    and "char_of (48 + d) \<noteq> CHR '':''" and "char_of (48 + d) \<noteq> CHR ''-''"
    and "char_of (48 + d) \<noteq> CHR ''+''"
proof -
  have v: "(of_char (char_of (48 + d) :: char) :: nat) = 48 + d"
    using assms by simp
  show "is_digit (char_of (48 + d))" using assms by (simp add: is_digit_def v)
  show "digit_val (char_of (48 + d)) = d" unfolding digit_val_def v by simp
  have "(of_char (char_of (48 + d) :: char) :: nat) \<noteq> of_char CHR '':''"
    using assms unfolding v by simp
  then show "char_of (48 + d) \<noteq> CHR '':''" by metis
  have "(of_char (char_of (48 + d) :: char) :: nat) \<noteq> of_char CHR ''-''"
    using assms unfolding v by simp
  then show "char_of (48 + d) \<noteq> CHR ''-''" by metis
  have "(of_char (char_of (48 + d) :: char) :: nat) \<noteq> of_char CHR ''+''"
    using assms unfolding v by simp
  then show "char_of (48 + d) \<noteq> CHR ''+''" by metis
qed

lemma decimal_not_Nil: "decimal n \<noteq> []"
  by (subst decimal.simps) simp

lemma decimal_digits: "list_all is_digit (decimal n)"
proof (induction n rule: decimal.induct)
  case (1 n)
  show ?case
  proof (cases "n < 10")
    case True
    then show ?thesis by (subst decimal.simps) (simp add: digit_char_props)
  next
    case False
    then show ?thesis using 1 by (subst decimal.simps) (simp add: digit_char_props)
  qed
qed

lemma dec_value_snoc: "dec_value (ds @ [c]) = dec_value ds * 10 + digit_val c"
  by (simp add: dec_value_def)

lemma dec_value_decimal: "dec_value (decimal n) = n"
proof (induction n rule: decimal.induct)
  case (1 n)
  show ?case
  proof (cases "n < 10")
    case True
    then show ?thesis by (subst decimal.simps) (simp add: dec_value_def digit_char_props)
  next
    case False
    then have "dec_value (decimal (n div 10)) = n div 10" using 1 by simp
    then show ?thesis using False
      by (subst decimal.simps) (simp add: dec_value_snoc digit_char_props)
  qed
qed

lemma ParseUint10_decimal: "ParseUint10 (decimal n) = Some n"
  by (simp add: ParseUint10_def decimal_not_Nil decimal_digits dec_value_decimal)

lemma digits_no_sign:
  assumes "list_all is_digit ds"
  shows "CHR '':'' \<notin> set ds" and "CHR ''-'' \<notin> set ds" and "CHR ''+'' \<notin> set ds"
  using assms by (auto simp: list_all_iff is_digit_def)

lemma decimal_Cons: "\<exists>c cs. decimal n = c # cs \<and> c \<noteq> CHR ''-'' \<and> c \<noteq> CHR ''+''"
proof -
  obtain c cs where e: "decimal n = c # cs"
    using decimal_not_Nil by (cases "decimal n") auto
  have "c \<in> set (decimal n)" using e by simp
  then have "c \<noteq> CHR ''-''" "c \<noteq> CHR ''+''"
    using digits_no_sign [OF decimal_digits, of n] by auto
  then show ?thesis using e by blast
qed

lemma Sprintf_d_no_colon: "CHR '':'' \<notin> set (Sprintf_d i)"
  using digits_no_sign(1) [OF decimal_digits] by (simp add: Sprintf_d_def)

lemma Atoi_Sprintf_d: "Atoi (Sprintf_d (sint (x :: 64 word))) = (x, True)"
proof (cases "sint x < 0")
  case True
  define n where "n = nat (- sint x)"
  have lo: "- (2 ^ 63) \<le> sint x" using sint_ge [of x] by simp
  then have n_le: "n \<le> 2 ^ 63" unfolding n_def by simp
  have "int n = - sint x" unfolding n_def using True by simp
  then have "(word_of_nat n :: 64 word) = word_of_int (- sint x)"
    by (metis of_int_of_nat_eq)
  then have w: "- (word_of_nat n :: 64 word) = x" by simp
  have s: "Sprintf_d (sint x) = CHR ''-'' # decimal n"
    using True by (simp add: Sprintf_d_def n_def)
  show ?thesis
    unfolding s using n_le w by (simp add: Atoi_def ParseUint10_decimal)
next
  case False
  define n where "n = nat (sint x)"
  have hi: "sint x < 2 ^ 63" using sint_lt [of x] by simp
  then have n_lt: "n < 2 ^ 63" unfolding n_def using False by simp
  have "int n = sint x" unfolding n_def using False by simp
  then have "(word_of_nat n :: 64 word) = word_of_int (sint x)"
    by (metis of_int_of_nat_eq)
  then have w: "(word_of_nat n :: 64 word) = x" by simp
  have s: "Sprintf_d (sint x) = decimal n"
    using False by (simp add: Sprintf_d_def n_def)
  obtain c cs where e: "decimal n = c # cs" "c \<noteq> CHR ''-''" "c \<noteq> CHR ''+''"
    using decimal_Cons by blast
  have p: "ParseUint10 (c # cs) = Some n" using ParseUint10_decimal [of n] e by simp
  show ?thesis
    unfolding s e using n_lt w p by (simp add: Atoi_def e)
qed

lemma Split_ratio:
  "Split (Sprintf_d i @ CHR '':'' # Sprintf_d j) CHR '':'' = [Sprintf_d i, Sprintf_d j]"
  by (rule Split_two [OF Sprintf_d_no_colon Sprintf_d_no_colon])

lemma orientation_dash_ratio:
  "orientation_dash (Sprintf_d (sint (w :: 64 word)) @ '':'' @ Sprintf_d (sint (h :: 64 word))) =
     (if sint h < sint w then ''landscape-''
      else if sint w < sint h then ''portrait-'' else ''other-'')"
  by (simp add: orientation_dash_def Split_ratio Atoi_Sprintf_d Let_def del: Split.simps)

lemma orientation_slash_ratio:
  "orientation_slash (Sprintf_d (sint (w :: 64 word)) @ '':'' @ Sprintf_d (sint (h :: 64 word))) =
     (if sint h < sint w then ''landscape/''
      else if sint w < sint h then ''portrait/'' else ''other/'')"
  by (simp add: orientation_slash_def Split_ratio Atoi_Sprintf_d Let_def del: Split.simps)

section \<open>Facts about the steps\<close>

lemma emit_sel [simp]:
  "trace (emit ev s) = trace s @ [ev]" "db (emit ev s) = db s"
  "files (emit ev s) = files s" "objects (emit ev s) = objects s"
  by (simp_all add: emit_def)

lemma os_Remove_sel [simp]:
  "trace (os_Remove p s) = trace s @ [EvRemove p]" "db (os_Remove p s) = db s"
  "files (os_Remove p s) = (files s)(p := None)" "objects (os_Remove p s) = objects s"
  by (simp_all add: os_Remove_def)

lemma first_status_append:
  "first_status (xs @ ys) =
     (case first_status xs of None \<Rightarrow> first_status ys | Some c \<Rightarrow> Some c)"
  by (induction xs rule: first_status.induct) simp_all

lemma first_body_append:
  "first_body (xs @ ys) =
     (case first_body xs of None \<Rightarrow> first_body ys | Some c \<Rightarrow> Some c)"
  by (induction xs rule: first_body.induct) simp_all

lemma first_status_snoc_Remove [simp]: "first_status (tr @ [EvRemove p]) = first_status tr"
  by (induction tr rule: first_status.induct) simp_all

lemma first_body_snoc_Remove [simp]: "first_body (tr @ [EvRemove p]) = first_body tr"
  by (induction tr rule: first_body.induct) simp_all

lemma first_body_None: "first_body tr = None \<longleftrightarrow> first_status tr = None"
  by (induction tr rule: first_status.induct) simp_all

lemmas step_defs =
  respondWithJSON_def respondWithError_def GetVideo_def UpdateVideo_def
  MaxBytesReader_def ParseMultipartForm_def FormFile_def os_Create_def io_Copy_def
  io_ReadAll_def os_CreateTemp_def Seek_def os_Open_def PutObject_def
  panic_def getVideoAspectRatio_def processVideoForFastStart_def

lemma principalE:
  assumes "principal e cfg r = Some u"
  obtains token where "GetBearerToken e (Header r) = Some token"
    and "ValidateJWT e token (jwtSecret cfg) = Some u"
  using assms by (auto simp: principal_def split: option.splits)

lemmas example_defs =
  example_env_def example_cfg_def example_video_def example_state_def
  thumbnail_request_def video_request_def request_without_file_def

lemmas handler_defs =
  handlerUploadThumbnail_def handlerUploadThumbnail_dataURL_def
  handlerUploadVideo_direct_def handlerUploadVideo_direct_staged_def
  handlerUploadVideo_aspect_def handlerUploadVideo_aspect_staged_def
  handlerUploadVideo_def handlerUploadVideo_staged_def handlerUploadVideo_processed_def

lemma maxUploadSize_100 [simp]: "\<not> maxUploadSize < 100"
  by (simp add: maxUploadSize_def)


section \<open>Ownership\<close>

text \<open>No step after the lookup looks a record up again.\<close>

lemma processed_gets:
  "EvGetVideo i x \<in> set (trace (handlerUploadVideo_processed e cfg v f mt pre pp st))
     \<longleftrightarrow> EvGetVideo i x \<in> set (trace st)"
  by (simp add: handlerUploadVideo_processed_def step_defs Let_def
        split: option.split prod.split)

lemma staged_gets:
  "EvGetVideo i x \<in> set (trace (handlerUploadVideo_staged e cfg v f mt tmp st))
     \<longleftrightarrow> EvGetVideo i x \<in> set (trace st)"
  by (simp add: handlerUploadVideo_staged_def step_defs Let_def processed_gets
        split: option.split sum.split)

lemma aspect_staged_gets:
  "EvGetVideo i x \<in> set (trace (handlerUploadVideo_aspect_staged e cfg v f mt tmp st))
     \<longleftrightarrow> EvGetVideo i x \<in> set (trace st)"
  by (simp add: handlerUploadVideo_aspect_staged_def step_defs Let_def
        split: option.split sum.split)

lemma direct_staged_gets:
  "EvGetVideo i x \<in> set (trace (handlerUploadVideo_direct_staged e cfg v f mt tmp st))
     \<longleftrightarrow> EvGetVideo i x \<in> set (trace st)"
  by (simp add: handlerUploadVideo_direct_staged_def step_defs Let_def
        split: option.split sum.split)

lemma video_owner:
  assumes "GetBearerToken e (Header r) = Some token"
    and "ValidateJWT e token (jwtSecret cfg) = Some u" and "UserID v \<noteq> u"
  shows "EvGetVideo i (Some v) \<in> set (trace (handlerUploadVideo e cfg r st)) \<longrightarrow>
         status (handlerUploadVideo e cfg r st) = Some 401 \<and>
         db (handlerUploadVideo e cfg r st) = db st"
  using assms
  by (auto simp: handlerUploadVideo_def step_defs Let_def staged_gets status_def
        split: option.split)

lemma aspect_owner:
  assumes "GetBearerToken e (Header r) = Some token"
    and "ValidateJWT e token (jwtSecret cfg) = Some u" and "UserID v \<noteq> u"
  shows "EvGetVideo i (Some v) \<in> set (trace (handlerUploadVideo_aspect e cfg r st)) \<longrightarrow>
         status (handlerUploadVideo_aspect e cfg r st) = Some 401 \<and>
         db (handlerUploadVideo_aspect e cfg r st) = db st"
  using assms
  by (auto simp: handlerUploadVideo_aspect_def step_defs Let_def aspect_staged_gets status_def
        split: option.split)

lemma direct_owner:
  assumes "GetBearerToken e (Header r) = Some token"
    and "ValidateJWT e token (jwtSecret cfg) = Some u" and "UserID v \<noteq> u"
  shows "EvGetVideo i (Some v) \<in> set (trace (handlerUploadVideo_direct e cfg r st)) \<longrightarrow>
         status (handlerUploadVideo_direct e cfg r st) = Some 401 \<and>
         db (handlerUploadVideo_direct e cfg r st) = db st"
  using assms
  by (auto simp: handlerUploadVideo_direct_def step_defs Let_def direct_staged_gets status_def
        split: option.split)

lemma thumbnail_owner:
  assumes "GetBearerToken e (Header r) = Some token"
    and "ValidateJWT e token (jwtSecret cfg) = Some u" and "UserID v \<noteq> u"
  shows "EvGetVideo i (Some v) \<in> set (trace (handlerUploadThumbnail e cfg r st)) \<longrightarrow>
         status (handlerUploadThumbnail e cfg r st) = Some 401 \<and>
         db (handlerUploadThumbnail e cfg r st) = db st"
  using assms
  by (auto simp: handlerUploadThumbnail_def step_defs Let_def status_def
        split: option.split)

lemma thumbnail_dataURL_owner:
  assumes "GetBearerToken e (Header r) = Some token"
    and "ValidateJWT e token (jwtSecret cfg) = Some u" and "UserID v \<noteq> u"
  shows "EvGetVideo i (Some v) \<in> set (trace (handlerUploadThumbnail_dataURL e cfg r st)) \<longrightarrow>
         status (handlerUploadThumbnail_dataURL e cfg r st) = Some 401 \<and>
         db (handlerUploadThumbnail_dataURL e cfg r st) = db st"
  using assms
  by (auto simp: handlerUploadThumbnail_dataURL_def step_defs Let_def status_def
        split: option.split)

text \<open>
  In each of the five handlers, when the record that the handler loads has an owner other
  than the authenticated principal, the response is 401 and the store is as it was.
\<close>

lemma non_owner_rejected:
  assumes "principal e cfg r = Some u"
    and "EvGetVideo i (Some v) \<in> set (trace (handler V e cfg r st))"
    and "UserID v \<noteq> u"
  shows "status (handler V e cfg r st) = Some 401 \<and> db (handler V e cfg r st) = db st"
proof -
  from assms(1) obtain token where t: "GetBearerToken e (Header r) = Some token"
    "ValidateJWT e token (jwtSecret cfg) = Some u" by (rule principalE)
  show ?thesis
  proof (cases V)
    case ThumbnailDisk
    then show ?thesis using thumbnail_owner [OF t assms(3)] assms(2) by simp
  next
    case ThumbnailDataURL
    then show ?thesis using thumbnail_dataURL_owner [OF t assms(3)] assms(2) by simp
  next
    case VideoDirect
    then show ?thesis using direct_owner [OF t assms(3)] assms(2) by simp
  next
    case VideoAspect
    then show ?thesis using aspect_owner [OF t assms(3)] assms(2) by simp
  next
    case VideoPresigned
    then show ?thesis using video_owner [OF t assms(3)] assms(2) by simp
  qed
qed


section \<open>Resolving a stored video URL\<close>

text \<open>
  C9. \<^verbatim>\<open>dbVideoToSignedVideo\<close> returns the record unchanged and no error whenever the stored
  video URL is nil or the empty string; and whenever the stored URL is non-empty but
  splitting it on the comma does not give exactly two parts, it returns an error and the
  record as it was, with no resolved URL in it.
\<close>

theorem dbVideoToSignedVideo_nil_or_malformed:
  "(VideoURL v = None \<or> VideoURL v = Some [] \<longrightarrow> dbVideoToSignedVideo e v = (v, None)) \<and>
   (VideoURL v = Some u \<and> u \<noteq> [] \<and> length (Split u CHR '','') \<noteq> 2 \<longrightarrow>
      (\<exists>err. dbVideoToSignedVideo e v = (v, Some err)))"
  by (auto simp: dbVideoToSignedVideo_def)

theorem dbVideoToSignedVideo_nil_or_malformed_witness:
  "VideoURL example_video = None \<and>
   dbVideoToSignedVideo example_env example_video = (example_video, None) \<and>
   VideoURL (example_video\<lparr>VideoURL := Some ''https://tubely.s3.us-east-2.amazonaws.com/2a.mp4''\<rparr>)
     = Some ''https://tubely.s3.us-east-2.amazonaws.com/2a.mp4'' \<and>
   length (Split ''https://tubely.s3.us-east-2.amazonaws.com/2a.mp4'' CHR '','') \<noteq> 2 \<and>
   (\<exists>err. dbVideoToSignedVideo example_env
            (example_video\<lparr>VideoURL := Some ''https://tubely.s3.us-east-2.amazonaws.com/2a.mp4''\<rparr>)
          = (example_video\<lparr>VideoURL := Some ''https://tubely.s3.us-east-2.amazonaws.com/2a.mp4''\<rparr>,
             Some err))"
  using dbVideoToSignedVideo_nil_or_malformed [where v = example_video and e = example_env]
    dbVideoToSignedVideo_nil_or_malformed
      [where v = "example_video\<lparr>VideoURL := Some ''https://tubely.s3.us-east-2.amazonaws.com/2a.mp4''\<rparr>"
         and u = "''https://tubely.s3.us-east-2.amazonaws.com/2a.mp4''" and e = example_env]
  by (simp add: example_video_def)

section \<open>Evaluation on the concrete environment\<close>

lemma example_sint: "sint (1080 :: 64 word) < sint (1920 :: 64 word)"
  by simp

lemma example_probed_size: "probed_size example_env = Some (1920, 1080)"
  by (simp add: probed_size_def example_defs)

lemma example_ratio:
  "orientation_dash (Sprintf_d 1920 @ CHR '':'' # Sprintf_d 1080) = ''landscape-''"
  "orientation_slash (Sprintf_d 1920 @ CHR '':'' # Sprintf_d 1080) = ''landscape/''"
  using orientation_dash_ratio [of 1920 1080] orientation_slash_ratio [of 1920 1080]
  by simp_all

lemma example_upload_trace:
  "trace (handlerUploadVideo example_env example_cfg (video_request ''alice'' ''clip.mp4'') example_state) =
   [EvGetVideo 1 (Some example_video), EvParseMultipartForm, EvFormFile ''video'',
    EvCreateTemp ''/tmp/tubely-upload-1.mp4'', EvCopy ''/tmp/tubely-upload-1.mp4'', EvSeek,
    EvProbe ''/tmp/tubely-upload-1.mp4'', EvRemux ''/tmp/tubely-upload-1.mp4.processing'',
    EvOpen ''/tmp/tubely-upload-1.mp4.processing'',
    EvPutObject ''tubely'' ''landscape-2a.mp4'' ''video/mp4'',
    EvUpdateVideo (example_video\<lparr>VideoURL := Some ''tubely,landscape-2a.mp4''\<rparr>),
    EvRespond 200 (VideoBody (example_video\<lparr>VideoURL := Some ''https://signed/tubely/landscape-2a.mp4''\<rparr>)),
    EvRemove ''/tmp/tubely-upload-1.mp4.processing'', EvRemove ''/tmp/tubely-upload-1.mp4'']"
  by (simp add: handler_defs step_defs example_defs Let_def example_ratio
        dbVideoToSignedVideo_def generatePresignedURL_def Ext_def)

lemmas eval_defs =
  handler_defs step_defs example_defs Let_def example_ratio dbVideoToSignedVideo_def
  generatePresignedURL_def Ext_def status_def response_body_def
  example_env_zero_width_def example_env_remux_fails_def

section \<open>The composite of bucket and key\<close>

lemma dbVideoToSignedVideo_composite:
  assumes "VideoURL v = Some (bucket @ CHR '','' # key)"
  shows "dbVideoToSignedVideo e v =
     (if CHR '','' \<in> set bucket \<or> CHR '','' \<in> set key
      then (v, Some (Error ''invalid stored video URL format''))
      else case PresignGetObject e bucket key time_Hour of
             None \<Rightarrow> (v, Some (Error ''presign failed''))
           | Some url \<Rightarrow> (v\<lparr>VideoURL := Some url\<rparr>, None))"
proof (cases "CHR '','' \<in> set bucket \<or> CHR '','' \<in> set key")
  case True
  then have "length (Split (bucket @ CHR '','' # key) CHR '','') \<noteq> 2"
    using length_Split_join [of bucket "CHR '',''" key] by blast
  then show ?thesis
    using True assms by (simp add: dbVideoToSignedVideo_def Let_def del: Split.simps)
next
  case False
  then have "Split (bucket @ CHR '','' # key) CHR '','' = [bucket, key]"
    by (simp add: Split_two)
  then show ?thesis
    using False assms
    by (simp add: dbVideoToSignedVideo_def generatePresignedURL_def Let_def
          split: option.split del: Split.simps)
qed

text \<open>
  When neither the bucket nor the object key contains a comma, the stored composite
  \<open>bucket,key\<close> splits into exactly the bucket and the key, and
  \<^verbatim>\<open>dbVideoToSignedVideo\<close> hands exactly these two, with a time-to-live of one hour, to the
  presigner. When the bucket or the key contains a comma, the split has more than two
  parts and \<^verbatim>\<open>dbVideoToSignedVideo\<close> returns the record as stored with the error
  \<^verbatim>\<open>invalid stored video URL format\<close>.
\<close>

lemma composite_round_trip:
  assumes "VideoURL v = Some (bucket @ '','' @ key)"
  shows "(CHR '','' \<notin> set bucket \<and> CHR '','' \<notin> set key \<longrightarrow>
            Split (bucket @ '','' @ key) CHR '','' = [bucket, key] \<and>
            dbVideoToSignedVideo e v =
              (case PresignGetObject e bucket key time_Hour of
                 None \<Rightarrow> (v, Some (Error ''presign failed''))
               | Some url \<Rightarrow> (v\<lparr>VideoURL := Some url\<rparr>, None))) \<and>
         (CHR '','' \<in> set bucket \<or> CHR '','' \<in> set key \<longrightarrow>
            dbVideoToSignedVideo e v = (v, Some (Error ''invalid stored video URL format'')))"
proof -
  have u: "VideoURL v = Some (bucket @ CHR '','' # key)" using assms by simp
  show ?thesis
    using dbVideoToSignedVideo_composite [OF u, of e]
    by (auto simp: Split_two simp del: Split.simps)
qed

lemma composite_round_trip_example:
  "VideoURL (example_video\<lparr>VideoURL := Some (''tubely'' @ '','' @ ''landscape-2a.mp4'')\<rparr>) =
     Some (''tubely'' @ '','' @ ''landscape-2a.mp4'') \<and>
   CHR '','' \<notin> set ''tubely'' \<and> CHR '','' \<notin> set ''landscape-2a.mp4'' \<and>
   Split (''tubely'' @ '','' @ ''landscape-2a.mp4'') CHR '','' = [''tubely'', ''landscape-2a.mp4''] \<and>
   dbVideoToSignedVideo example_env
     (example_video\<lparr>VideoURL := Some (''tubely'' @ '','' @ ''landscape-2a.mp4'')\<rparr>) =
     (example_video\<lparr>VideoURL := Some ''https://signed/tubely/landscape-2a.mp4''\<rparr>, None) \<and>
   VideoURL (example_video\<lparr>VideoURL := Some (''tubely'' @ '','' @ ''landscape-2a.mp4,x'')\<rparr>) =
     Some (''tubely'' @ '','' @ ''landscape-2a.mp4,x'') \<and>
   CHR '','' \<in> set ''landscape-2a.mp4,x'' \<and>
   dbVideoToSignedVideo example_env
     (example_video\<lparr>VideoURL := Some (''tubely'' @ '','' @ ''landscape-2a.mp4,x'')\<rparr>) =
     (example_video\<lparr>VideoURL := Some (''tubely'' @ '','' @ ''landscape-2a.mp4,x'')\<rparr>,
      Some (Error ''invalid stored video URL format''))"
proof -
  have a: "VideoURL (example_video\<lparr>VideoURL := Some (''tubely'' @ '','' @ ''landscape-2a.mp4'')\<rparr>) =
     Some (''tubely'' @ '','' @ ''landscape-2a.mp4'')" by simp
  have b: "VideoURL (example_video\<lparr>VideoURL := Some (''tubely'' @ '','' @ ''landscape-2a.mp4,x'')\<rparr>) =
     Some (''tubely'' @ '','' @ ''landscape-2a.mp4,x'')" by simp
  have u: "PresignGetObject example_env ''tubely'' ''landscape-2a.mp4'' time_Hour =
     Some ''https://signed/tubely/landscape-2a.mp4''" by (simp add: example_defs)
  show ?thesis
    using composite_round_trip [OF a, of example_env] composite_round_trip [OF b, of example_env] u
    by simp
qed

text \<open>
  C4. The round trip of bucket and key through the stored composite, on the upload of a
  file named \<^verbatim>\<open>clip.mp4,x\<close>. The key ends in the extension of the uploaded file name, taken
  as it is, and that extension is \<^verbatim>\<open>.mp4,x\<close>. The handler puts the object under the key,
  persists the composite of bucket and key and resolves it at once: the composite splits
  into three parts, neither the bucket nor the key is reconstructed, and the request is
  answered with 500 after the object and the record have been written.
\<close>

theorem comma_in_extension_breaks_round_trip:
  "Ext ''clip.mp4,x'' = ''.mp4,x'' \<and>
   EvPutObject ''tubely'' ''landscape-2a.mp4,x'' ''video/mp4''
     \<in> set (trace (handlerUploadVideo example_env example_cfg
                     (video_request ''alice'' ''clip.mp4,x'') example_state)) \<and>
   map VideoURL (db (handlerUploadVideo example_env example_cfg
                       (video_request ''alice'' ''clip.mp4,x'') example_state)) =
     [Some (''tubely'' @ '','' @ ''landscape-2a.mp4,x'')] \<and>
   status (handlerUploadVideo example_env example_cfg
             (video_request ''alice'' ''clip.mp4,x'') example_state) = Some 500 \<and>
   Split (''tubely'' @ '','' @ ''landscape-2a.mp4,x'') CHR '','' =
     [''tubely'', ''landscape-2a.mp4'', ''x''] \<and>
   dbVideoToSignedVideo example_env
     (example_video\<lparr>VideoURL := Some (''tubely'' @ '','' @ ''landscape-2a.mp4,x'')\<rparr>) =
     (example_video\<lparr>VideoURL := Some (''tubely'' @ '','' @ ''landscape-2a.mp4,x'')\<rparr>,
      Some (Error ''invalid stored video URL format''))"
  by (simp add: eval_defs)

section \<open>The video handlers, part by part\<close>

lemma status_os_Remove [simp]: "status (os_Remove p s) = status s"
  by (simp add: status_def)

lemma response_body_os_Remove [simp]: "response_body (os_Remove p s) = response_body s"
  by (simp add: response_body_def)

lemma find_ID:
  assumes "find (\<lambda>x. ID x = i) xs = Some v"
  shows "ID v = i"
  using assms by (induction xs) (auto split: if_splits)

lemma find_updated:
  assumes "find (\<lambda>x. ID x = i) xs = Some v" and "ID v' = i"
  shows "find (\<lambda>x. ID x = i) (map (\<lambda>x. if ID x = i then v' else x) xs) = Some v'"
  using assms by (induction xs) (auto split: if_splits)

lemma processed_ok:
  assumes "status (handlerUploadVideo_processed e cfg v f mt pre pp st) = Some 200"
    and "first_status (trace st) = None"
  shows "EvPutObject (s3Bucket cfg) (pre @ Sprintf_x e (uuid_New e) @ Ext (Filename f)) mt
           \<in> set (trace (handlerUploadVideo_processed e cfg v f mt pre pp st)) \<and>
         db (handlerUploadVideo_processed e cfg v f mt pre pp st) =
           map (\<lambda>x. if ID x = ID v
                     then v\<lparr>VideoURL := Some (s3Bucket cfg @ '','' @ pre
                                  @ Sprintf_x e (uuid_New e) @ Ext (Filename f))\<rparr>
                     else x) (db st) \<and>
         (\<exists>url. PresignGetObject e (s3Bucket cfg)
                   (pre @ Sprintf_x e (uuid_New e) @ Ext (Filename f)) time_Hour = Some url \<and>
                response_body (handlerUploadVideo_processed e cfg v f mt pre pp st) =
                  Some (VideoBody (v\<lparr>VideoURL := Some url\<rparr>)))"
proof -
  let ?key = "pre @ Sprintf_x e (uuid_New e) @ Ext (Filename f)"
  let ?v' = "v\<lparr>VideoURL := Some (s3Bucket cfg @ CHR '','' # ?key)\<rparr>"
  have c: "dbVideoToSignedVideo e ?v' =
     (if CHR '','' \<in> set (s3Bucket cfg) \<or> CHR '','' \<in> set ?key
      then (?v', Some (Error ''invalid stored video URL format''))
      else case PresignGetObject e (s3Bucket cfg) ?key time_Hour of
             None \<Rightarrow> (?v', Some (Error ''presign failed''))
           | Some url \<Rightarrow> (?v'\<lparr>VideoURL := Some url\<rparr>, None))"
    by (rule dbVideoToSignedVideo_composite) simp
  have b: "first_body (trace st) = None" using assms(2) by (simp add: first_body_None)
  show ?thesis
    using assms b
    by (auto simp: handlerUploadVideo_processed_def step_defs Let_def c status_def
          response_body_def first_status_append first_body_append
          split: option.splits if_splits)
qed

lemma processed_puts:
  assumes "EvPutObject b k c \<in> set (trace (handlerUploadVideo_processed e cfg v f mt pre pp st))"
  shows "EvPutObject b k c \<in> set (trace st) \<or>
         k = pre @ Sprintf_x e (uuid_New e) @ Ext (Filename f)"
  using assms
  by (auto simp: handlerUploadVideo_processed_def step_defs Let_def
        split: option.splits if_splits prod.splits)

lemma staged_cases:
  assumes "first_status (trace st) = None"
  shows "(status (handlerUploadVideo_staged e cfg v f mt tmp st) = Some 500 \<and>
          db (handlerUploadVideo_staged e cfg v f mt tmp st) = db st \<and>
          puts_within (handlerUploadVideo_staged e cfg v f mt tmp st) st) \<or>
         (\<exists>ratio sa sb pp st8.
            getVideoAspectRatio e tmp sa = (Inr ratio, sb) \<and>
            handlerUploadVideo_staged e cfg v f mt tmp st =
              os_Remove pp (handlerUploadVideo_processed e cfg v f mt
                              (orientation_dash ratio) pp st8) \<and>
            first_status (trace st8) = None \<and> db st8 = db st \<and> puts_within st8 st)"
proof -
  have "status (handlerUploadVideo_staged e cfg v f mt tmp st) = Some 500 \<and>
          db (handlerUploadVideo_staged e cfg v f mt tmp st) = db st \<and>
          puts_within (handlerUploadVideo_staged e cfg v f mt tmp st) st"
    if "fails e OpCopy"
    using that assms
    by (simp add: handlerUploadVideo_staged_def io_Copy_def respondWithError_def
          respondWithJSON_def status_def first_status_append puts_within_def)
  moreover have "status (handlerUploadVideo_staged e cfg v f mt tmp st) = Some 500 \<and>
          db (handlerUploadVideo_staged e cfg v f mt tmp st) = db st \<and>
          puts_within (handlerUploadVideo_staged e cfg v f mt tmp st) st"
    if "\<not> fails e OpCopy" "fails e OpSeek"
    using that assms
    by (simp add: handlerUploadVideo_staged_def io_Copy_def Seek_def respondWithError_def
          respondWithJSON_def status_def first_status_append puts_within_def)
  moreover have ?thesis
    if c: "\<not> fails e OpCopy" "\<not> fails e OpSeek"
  proof -
    let ?s6 = "emit EvSeek (emit (EvCopy tmp) (st\<lparr>files := (files st)(tmp \<mapsto> Content f)\<rparr>))"
    obtain res s7 where g: "getVideoAspectRatio e tmp ?s6 = (res, s7)"
      by (cases "getVideoAspectRatio e tmp ?s6") auto
    have s7: "db s7 = db st" "first_status (trace s7) = None" "puts_within s7 st"
      using g assms
      by (auto simp: getVideoAspectRatio_def Let_def first_status_append puts_within_def
            split: option.splits if_splits)
    show ?thesis
    proof (cases res)
      case (Inl err)
      then have "status (handlerUploadVideo_staged e cfg v f mt tmp st) = Some 500 \<and>
          db (handlerUploadVideo_staged e cfg v f mt tmp st) = db st \<and>
          puts_within (handlerUploadVideo_staged e cfg v f mt tmp st) st"
        using c g s7
        by (simp add: handlerUploadVideo_staged_def io_Copy_def Seek_def respondWithError_def
              respondWithJSON_def status_def first_status_append puts_within_def)
      then show ?thesis by blast
    next
      case (Inr ratio)
      obtain res8 s8 where p: "processVideoForFastStart e tmp s7 = (res8, s8)"
        by (cases "processVideoForFastStart e tmp s7") auto
      have s8: "db s8 = db st" "first_status (trace s8) = None" "puts_within s8 st"
        using p s7
        by (auto simp: processVideoForFastStart_def Let_def first_status_append puts_within_def
              split: option.splits if_splits)
      show ?thesis
      proof (cases res8)
        case (Inl err)
        then have "status (handlerUploadVideo_staged e cfg v f mt tmp st) = Some 500 \<and>
          db (handlerUploadVideo_staged e cfg v f mt tmp st) = db st \<and>
          puts_within (handlerUploadVideo_staged e cfg v f mt tmp st) st"
          using c g p s8 Inr
          by (simp add: handlerUploadVideo_staged_def io_Copy_def Seek_def respondWithError_def
                respondWithJSON_def status_def first_status_append puts_within_def)
        then show ?thesis by blast
      next
        case (Inr pp)
        have "handlerUploadVideo_staged e cfg v f mt tmp st =
              os_Remove pp (handlerUploadVideo_processed e cfg v f mt
                              (orientation_dash ratio) pp s8)"
          using c g p Inr \<open>res = Inr ratio\<close>
          by (simp add: handlerUploadVideo_staged_def io_Copy_def Seek_def)
        then show ?thesis using g s8 \<open>res = Inr ratio\<close> by blast
      qed
    qed
  qed
  ultimately show ?thesis by blast
qed

lemma staging_outcome_fail:
  "status s \<in> {Some 400, Some 401, Some 404, Some 500} \<Longrightarrow> db s = db st \<Longrightarrow>
   no_put s \<Longrightarrow> no_probe s \<Longrightarrow> staging_outcome staged e r st s"
  by (simp add: staging_outcome_def)

lemma staging_outcome_go:
  "uuid_Parse e (PathValue_videoID r) = Some i \<Longrightarrow> find (\<lambda>x. ID x = i) (db st) = Some v \<Longrightarrow>
   first_status (trace st4) = None \<Longrightarrow> db st4 = db st \<Longrightarrow> no_put st4 \<Longrightarrow>
   staging_outcome staged e r st (os_Remove (tempName e) (staged v f st4))"
  unfolding staging_outcome_def by blast

lemma video_cases:
  "staging_outcome (\<lambda>v f. handlerUploadVideo_staged e cfg v f ''video/mp4'' (tempName e))
     e r st (handlerUploadVideo e cfg r st)"
  apply (simp add: handlerUploadVideo_def step_defs Let_def split: option.split)
  apply (intro conjI allI impI)
  apply ((rule staging_outcome_go
            [where staged = "\<lambda>v f. handlerUploadVideo_staged e cfg v f ''video/mp4'' (tempName e)"];
          simp add: no_put_def)
       | (rule staging_outcome_fail; simp add: status_def no_put_def no_probe_def))+
  done

lemma aspect_cases:
  "staging_outcome (\<lambda>v f. handlerUploadVideo_aspect_staged e cfg v f ''video/mp4'' (tempName e))
     e r st (handlerUploadVideo_aspect e cfg r st)"
  apply (simp add: handlerUploadVideo_aspect_def step_defs Let_def split: option.split)
  apply (intro conjI allI impI)
  apply ((rule staging_outcome_go
            [where staged = "\<lambda>v f. handlerUploadVideo_aspect_staged e cfg v f ''video/mp4'' (tempName e)"];
          simp add: no_put_def)
       | (rule staging_outcome_fail; simp add: status_def no_put_def no_probe_def))+
  done

lemma getVideoAspectRatio_Inr:
  assumes "getVideoAspectRatio e (tempName e) sa = (Inr ratio, sb)"
  shows "\<exists>w h. probed_size e = Some (w, h) \<and> w \<noteq> 0 \<and> h \<noteq> 0 \<and>
               ratio = Sprintf_d (sint w) @ CHR '':'' # Sprintf_d (sint h)"
  using assms
  by (auto simp: getVideoAspectRatio_def probed_size_def Let_def
        split: option.splits if_splits list.splits)

lemma puts_within_no_put: "puts_within s' s \<Longrightarrow> no_put s \<Longrightarrow> no_put s'"
  by (auto simp: puts_within_def no_put_def)

lemma no_put_os_Remove [simp]: "no_put (os_Remove p s) = no_put s"
  by (simp add: no_put_def)

lemma aspect_staged_cases:
  assumes "first_status (trace st) = None" and "no_put st"
  shows "(status (handlerUploadVideo_aspect_staged e cfg v f mt tmp st) = Some 500 \<and>
          no_put (handlerUploadVideo_aspect_staged e cfg v f mt tmp st)) \<or>
         (\<exists>ratio sa sb.
            getVideoAspectRatio e tmp sa = (Inr ratio, sb) \<and>
            (\<forall>b k c. EvPutObject b k c
                        \<in> set (trace (handlerUploadVideo_aspect_staged e cfg v f mt tmp st)) \<longrightarrow>
                 k = orientation_slash ratio @ Sprintf_x e (uuid_New e) @ Ext (Filename f)))"
proof -
  let ?s6 = "emit EvSeek (emit (EvCopy tmp) (st\<lparr>files := (files st)(tmp \<mapsto> Content f)\<rparr>))"
  obtain res s7 where g: "getVideoAspectRatio e tmp ?s6 = (res, s7)"
    by (cases "getVideoAspectRatio e tmp ?s6") auto
  have s7: "first_status (trace s7) = None" "no_put s7"
    using g assms
    by (auto simp: getVideoAspectRatio_def Let_def first_status_append no_put_def
          split: option.splits if_splits)
  show ?thesis
  proof (cases res)
    case (Inl err)
    then have "status (handlerUploadVideo_aspect_staged e cfg v f mt tmp st) = Some 500 \<and>
          no_put (handlerUploadVideo_aspect_staged e cfg v f mt tmp st)"
      using g s7 assms
      by (simp add: handlerUploadVideo_aspect_staged_def io_Copy_def Seek_def
            respondWithError_def respondWithJSON_def status_def first_status_append no_put_def)
    then show ?thesis by blast
  next
    case (Inr ratio)
    show ?thesis
    proof (cases "fails e OpCopy \<or> fails e OpSeek")
      case True
      then have "status (handlerUploadVideo_aspect_staged e cfg v f mt tmp st) = Some 500 \<and>
          no_put (handlerUploadVideo_aspect_staged e cfg v f mt tmp st)"
        using assms
        by (auto simp: handlerUploadVideo_aspect_staged_def io_Copy_def Seek_def
              respondWithError_def respondWithJSON_def status_def first_status_append no_put_def)
      then show ?thesis by blast
    next
      case False
      have "\<forall>b k c. EvPutObject b k c
                        \<in> set (trace (handlerUploadVideo_aspect_staged e cfg v f mt tmp st)) \<longrightarrow>
                 k = orientation_slash ratio @ Sprintf_x e (uuid_New e) @ Ext (Filename f)"
        using False g Inr s7
        by (auto simp: handlerUploadVideo_aspect_staged_def io_Copy_def Seek_def PutObject_def
              UpdateVideo_def respondWithError_def respondWithJSON_def Let_def no_put_def)
      then show ?thesis using g Inr by blast
    qed
  qed
qed

lemma video_put_prefix:
  assumes "EvPutObject b k c \<in> set (trace (handlerUploadVideo e cfg r st))"
  shows "\<exists>w h rest. probed_size e = Some (w, h) \<and> w \<noteq> 0 \<and> h \<noteq> 0 \<and>
           k = (if sint h < sint w then ''landscape-''
                else if sint w < sint h then ''portrait-'' else ''other-'') @ rest"
proof -
  let ?H = "handlerUploadVideo e cfg r st"
  from video_cases [of e cfg r st] assms
  obtain i v f st4 where
    H: "?H = os_Remove (tempName e)
               (handlerUploadVideo_staged e cfg v f ''video/mp4'' (tempName e) st4)"
    and st4: "first_status (trace st4) = None" "no_put st4"
    unfolding staging_outcome_def no_put_def by blast
  let ?S = "handlerUploadVideo_staged e cfg v f ''video/mp4'' (tempName e) st4"
  have put: "EvPutObject b k c \<in> set (trace ?S)" using assms H by simp
  from staged_cases [OF st4(1), of e cfg v f "''video/mp4''" "tempName e"]
  show ?thesis
  proof
    assume "status ?S = Some 500 \<and> db ?S = db st4 \<and> puts_within ?S st4"
    then have "no_put ?S" using st4(2) puts_within_no_put by blast
    then show ?thesis using put by (simp add: no_put_def)
  next
    assume "\<exists>ratio sa sb pp st8.
            getVideoAspectRatio e (tempName e) sa = (Inr ratio, sb) \<and>
            ?S = os_Remove pp (handlerUploadVideo_processed e cfg v f ''video/mp4''
                              (orientation_dash ratio) pp st8) \<and>
            first_status (trace st8) = None \<and> db st8 = db st4 \<and> puts_within st8 st4"
    then obtain ratio sa sb pp st8 where
      g: "getVideoAspectRatio e (tempName e) sa = (Inr ratio, sb)"
      and S: "?S = os_Remove pp (handlerUploadVideo_processed e cfg v f ''video/mp4''
                              (orientation_dash ratio) pp st8)"
      and st8: "puts_within st8 st4" by blast
    have "no_put st8" using st8 st4(2) puts_within_no_put by blast
    moreover have "EvPutObject b k c \<in> set (trace (handlerUploadVideo_processed e cfg v f
                      ''video/mp4'' (orientation_dash ratio) pp st8))"
      using put S by simp
    ultimately have k: "k = orientation_dash ratio @ Sprintf_x e (uuid_New e) @ Ext (Filename f)"
      using processed_puts by (fastforce simp: no_put_def)
    from getVideoAspectRatio_Inr [OF g] obtain w h where
      p: "probed_size e = Some (w, h)" "w \<noteq> 0" "h \<noteq> 0"
      and ratio: "ratio = Sprintf_d (sint w) @ CHR '':'' # Sprintf_d (sint h)" by blast
    have "orientation_dash ratio =
            (if sint h < sint w then ''landscape-''
             else if sint w < sint h then ''portrait-'' else ''other-'')"
      unfolding ratio using orientation_dash_ratio [of w h] by simp
    then show ?thesis using p k by blast
  qed
qed

lemma aspect_put_prefix:
  assumes "EvPutObject b k c \<in> set (trace (handlerUploadVideo_aspect e cfg r st))"
  shows "\<exists>w h rest. probed_size e = Some (w, h) \<and> w \<noteq> 0 \<and> h \<noteq> 0 \<and>
           k = (if sint h < sint w then ''landscape/''
                else if sint w < sint h then ''portrait/'' else ''other/'') @ rest"
proof -
  let ?H = "handlerUploadVideo_aspect e cfg r st"
  from aspect_cases [of e cfg r st] assms
  obtain i v f st4 where
    H: "?H = os_Remove (tempName e)
               (handlerUploadVideo_aspect_staged e cfg v f ''video/mp4'' (tempName e) st4)"
    and st4: "first_status (trace st4) = None" "no_put st4"
    unfolding staging_outcome_def no_put_def by blast
  let ?S = "handlerUploadVideo_aspect_staged e cfg v f ''video/mp4'' (tempName e) st4"
  have put: "EvPutObject b k c \<in> set (trace ?S)" using assms H by simp
  from aspect_staged_cases [OF st4, of e cfg v f "''video/mp4''" "tempName e"] put
  obtain ratio sa sb where
    g: "getVideoAspectRatio e (tempName e) sa = (Inr ratio, sb)"
    and k: "k = orientation_slash ratio @ Sprintf_x e (uuid_New e) @ Ext (Filename f)"
    unfolding no_put_def by blast
  from getVideoAspectRatio_Inr [OF g] obtain w h where
    p: "probed_size e = Some (w, h)" "w \<noteq> 0" "h \<noteq> 0"
    and ratio: "ratio = Sprintf_d (sint w) @ CHR '':'' # Sprintf_d (sint h)" by blast
  have "orientation_slash ratio =
          (if sint h < sint w then ''landscape/''
           else if sint w < sint h then ''portrait/'' else ''other/'')"
    unfolding ratio using orientation_slash_ratio [of w h] by simp
  then show ?thesis using p k by blast
qed

lemma video_zero:
  assumes "probed_size e = Some (w, h)" and "w = 0 \<or> h = 0"
    and "EvProbe p \<in> set (trace (handlerUploadVideo e cfg r st))"
  shows "status (handlerUploadVideo e cfg r st) = Some 500"
proof -
  let ?H = "handlerUploadVideo e cfg r st"
  from video_cases [of e cfg r st] assms(3)
  obtain i v f st4 where
    H: "?H = os_Remove (tempName e)
               (handlerUploadVideo_staged e cfg v f ''video/mp4'' (tempName e) st4)"
    and st4: "first_status (trace st4) = None"
    unfolding staging_outcome_def no_probe_def by blast
  let ?S = "handlerUploadVideo_staged e cfg v f ''video/mp4'' (tempName e) st4"
  from staged_cases [OF st4, of e cfg v f "''video/mp4''" "tempName e"]
  have "status ?S = Some 500"
    using getVideoAspectRatio_Inr assms(1,2) by fastforce
  then show ?thesis using H by simp
qed

lemma aspect_zero:
  assumes "probed_size e = Some (w, h)" and "w = 0 \<or> h = 0"
    and "EvProbe p \<in> set (trace (handlerUploadVideo_aspect e cfg r st))"
  shows "status (handlerUploadVideo_aspect e cfg r st) = Some 500"
proof -
  let ?H = "handlerUploadVideo_aspect e cfg r st"
  from aspect_cases [of e cfg r st] assms(3)
  obtain i v f st4 where
    H: "?H = os_Remove (tempName e)
               (handlerUploadVideo_aspect_staged e cfg v f ''video/mp4'' (tempName e) st4)"
    and st4: "first_status (trace st4) = None" "no_put st4"
    unfolding staging_outcome_def no_probe_def by blast
  let ?S = "handlerUploadVideo_aspect_staged e cfg v f ''video/mp4'' (tempName e) st4"
  from aspect_staged_cases [OF st4, of e cfg v f "''video/mp4''" "tempName e"]
  have "status ?S = Some 500"
    using getVideoAspectRatio_Inr assms(1,2) by fastforce
  then show ?thesis using H by simp
qed

section \<open>Orientation prefix of the object key\<close>

text \<open>
  C3, as amended. In the two video handlers that classify the orientation, every object
  key that the handler generates (the key of its \<^verbatim>\<open>PutObject\<close>) starts with the prefix
  chosen by the strict comparison of the probed width and height, both non-zero:
  landscape, portrait or other, followed by a dash in the presigned handler and by a slash
  in the earlier direct-URL handler. When the probe reports a zero width or height, a
  request that gets as far as the probe is answered with 500, in both handlers (and by the
  first part it puts no object, so no key and no prefix exist).
\<close>

theorem orientation_prefix:
  "(EvPutObject b k c \<in> set (trace (handlerUploadVideo e cfg r st)) \<longrightarrow>
      (\<exists>w h rest. probed_size e = Some (w, h) \<and> w \<noteq> 0 \<and> h \<noteq> 0 \<and>
         k = (if sint h < sint w then ''landscape-''
              else if sint w < sint h then ''portrait-'' else ''other-'') @ rest)) \<and>
   (EvPutObject b k c \<in> set (trace (handlerUploadVideo_aspect e cfg r st)) \<longrightarrow>
      (\<exists>w h rest. probed_size e = Some (w, h) \<and> w \<noteq> 0 \<and> h \<noteq> 0 \<and>
         k = (if sint h < sint w then ''landscape/''
              else if sint w < sint h then ''portrait/'' else ''other/'') @ rest)) \<and>
   (probed_size e = Some (w, h) \<and> (w = 0 \<or> h = 0) \<longrightarrow>
      (EvProbe p \<in> set (trace (handlerUploadVideo e cfg r st)) \<longrightarrow>
         status (handlerUploadVideo e cfg r st) = Some 500) \<and>
      (EvProbe p \<in> set (trace (handlerUploadVideo_aspect e cfg r st)) \<longrightarrow>
         status (handlerUploadVideo_aspect e cfg r st) = Some 500))"
  using video_put_prefix [of b k c e cfg r st] aspect_put_prefix [of b k c e cfg r st]
    video_zero [of e w h p cfg r st] aspect_zero [of e w h p cfg r st]
  by blast

theorem orientation_prefix_witness:
  "EvPutObject ''tubely'' ''landscape-2a.mp4'' ''video/mp4''
     \<in> set (trace (handlerUploadVideo example_env example_cfg
                     (video_request ''alice'' ''clip.mp4'') example_state)) \<and>
   (\<exists>w h rest. probed_size example_env = Some (w, h) \<and> w \<noteq> 0 \<and> h \<noteq> 0 \<and>
      ''landscape-2a.mp4'' =
        (if sint h < sint w then ''landscape-''
         else if sint w < sint h then ''portrait-'' else ''other-'') @ rest) \<and>
   EvPutObject ''tubely'' ''landscape/2a.mp4'' ''video/mp4''
     \<in> set (trace (handlerUploadVideo_aspect example_env example_cfg
                     (video_request ''alice'' ''clip.mp4'') example_state)) \<and>
   (\<exists>w h rest. probed_size example_env = Some (w, h) \<and> w \<noteq> 0 \<and> h \<noteq> 0 \<and>
      ''landscape/2a.mp4'' =
        (if sint h < sint w then ''landscape/''
         else if sint w < sint h then ''portrait/'' else ''other/'') @ rest) \<and>
   probed_size example_env_zero_width = Some (0, 1080) \<and>
   EvProbe ''/tmp/tubely-upload-1.mp4''
     \<in> set (trace (handlerUploadVideo example_env_zero_width example_cfg
                     (video_request ''alice'' ''clip.mp4'') example_state)) \<and>
   status (handlerUploadVideo example_env_zero_width example_cfg
             (video_request ''alice'' ''clip.mp4'') example_state) = Some 500 \<and>
   EvProbe ''/tmp/tubely-upload-1.mp4''
     \<in> set (trace (handlerUploadVideo_aspect example_env_zero_width example_cfg
                     (video_request ''alice'' ''clip.mp4'') example_state)) \<and>
   status (handlerUploadVideo_aspect example_env_zero_width example_cfg
             (video_request ''alice'' ''clip.mp4'') example_state) = Some 500"
proof -
  have p1: "EvPutObject ''tubely'' ''landscape-2a.mp4'' ''video/mp4''
     \<in> set (trace (handlerUploadVideo example_env example_cfg
                     (video_request ''alice'' ''clip.mp4'') example_state))"
    by (simp add: eval_defs)
  have p2: "EvPutObject ''tubely'' ''landscape/2a.mp4'' ''video/mp4''
     \<in> set (trace (handlerUploadVideo_aspect example_env example_cfg
                     (video_request ''alice'' ''clip.mp4'') example_state))"
    by (simp add: eval_defs)
  have z: "probed_size example_env_zero_width = Some (0, 1080)"
    by (simp add: probed_size_def eval_defs)
  have q1: "EvProbe ''/tmp/tubely-upload-1.mp4''
     \<in> set (trace (handlerUploadVideo example_env_zero_width example_cfg
                     (video_request ''alice'' ''clip.mp4'') example_state))"
    by (simp add: eval_defs)
  have q2: "EvProbe ''/tmp/tubely-upload-1.mp4''
     \<in> set (trace (handlerUploadVideo_aspect example_env_zero_width example_cfg
                     (video_request ''alice'' ''clip.mp4'') example_state))"
    by (simp add: eval_defs)
  note t1 = orientation_prefix [where e = example_env and cfg = example_cfg
        and r = "video_request ''alice'' ''clip.mp4''" and st = example_state
        and b = "''tubely''" and k = "''landscape-2a.mp4''" and c = "''video/mp4''"]
  note t2 = orientation_prefix [where e = example_env and cfg = example_cfg
        and r = "video_request ''alice'' ''clip.mp4''" and st = example_state
        and b = "''tubely''" and k = "''landscape/2a.mp4''" and c = "''video/mp4''"]
  note t3 = orientation_prefix [where e = example_env_zero_width and cfg = example_cfg
        and r = "video_request ''alice'' ''clip.mp4''" and st = example_state
        and w = 0 and h = 1080 and p = "''/tmp/tubely-upload-1.mp4''"]
  have c1: "\<exists>w h rest. probed_size example_env = Some (w, h) \<and> w \<noteq> 0 \<and> h \<noteq> 0 \<and>
      ''landscape-2a.mp4'' =
        (if sint h < sint w then ''landscape-''
         else if sint w < sint h then ''portrait-'' else ''other-'') @ rest"
    by (rule mp [OF conjunct1 [OF t1] p1])
  have c2: "\<exists>w h rest. probed_size example_env = Some (w, h) \<and> w \<noteq> 0 \<and> h \<noteq> 0 \<and>
      ''landscape/2a.mp4'' =
        (if sint h < sint w then ''landscape/''
         else if sint w < sint h then ''portrait/'' else ''other/'') @ rest"
    by (rule mp [OF conjunct1 [OF conjunct2 [OF t2]] p2])
  have z': "probed_size example_env_zero_width = Some (0, 1080) \<and> ((0 :: 64 word) = 0 \<or> (1080 :: 64 word) = 0)"
    using z by simp
  note c3 = mp [OF conjunct2 [OF conjunct2 [OF t3]] z']
  have s1: "status (handlerUploadVideo example_env_zero_width example_cfg
             (video_request ''alice'' ''clip.mp4'') example_state) = Some 500"
    by (rule mp [OF conjunct1 [OF c3] q1])
  have s2: "status (handlerUploadVideo_aspect example_env_zero_width example_cfg
             (video_request ''alice'' ''clip.mp4'') example_state) = Some 500"
    by (rule mp [OF conjunct2 [OF c3] q2])
  show ?thesis
    by (intro conjI p1 c1 p2 c2 z q1 s1 q2 s2)
qed

text \<open>
  The claim as stated fails in the earlier handler: for a 1920 by 1080 stream its key
  starts with \<^verbatim>\<open>landscape/\<close>, not with \<^verbatim>\<open>landscape-\<close>.
\<close>

theorem orientation_prefix_counterexample:
  "EvPutObject ''tubely'' ''landscape/2a.mp4'' ''video/mp4''
     \<in> set (trace (handlerUploadVideo_aspect example_env example_cfg
                     (video_request ''alice'' ''clip.mp4'') example_state)) \<and>
   probed_size example_env = Some (1920, 1080) \<and>
   sint (1080 :: 64 word) < sint (1920 :: 64 word) \<and>
   take 10 ''landscape/2a.mp4'' \<noteq> ''landscape-''"
  by (simp add: eval_defs probed_size_def)

section \<open>What a successful presigned upload persists and answers\<close>

text \<open>
  C7. When the presigned handler answers 200, the request names a record of the store, an
  object was put under some key in the configured bucket, the store differs from the one
  before only in that record, whose video URL is now the composite of bucket and key (the
  lookup of the record gives the composite, not the signed URL), and the body of the answer
  is the record with the URL that the presigner returns for this bucket and key with a
  time-to-live of \<^verbatim>\<open>time.Hour\<close>, one hour in nanoseconds.
\<close>

theorem presigned_upload_persists_composite:
  assumes "status (handlerUploadVideo e cfg r st) = Some 200"
  shows "\<exists>i v key url.
     uuid_Parse e (PathValue_videoID r) = Some i \<and>
     find (\<lambda>x. ID x = i) (db st) = Some v \<and>
     EvPutObject (s3Bucket cfg) key ''video/mp4'' \<in> set (trace (handlerUploadVideo e cfg r st)) \<and>
     db (handlerUploadVideo e cfg r st) =
       map (\<lambda>x. if ID x = i then v\<lparr>VideoURL := Some (s3Bucket cfg @ '','' @ key)\<rparr> else x) (db st) \<and>
     find (\<lambda>x. ID x = i) (db (handlerUploadVideo e cfg r st)) =
       Some (v\<lparr>VideoURL := Some (s3Bucket cfg @ '','' @ key)\<rparr>) \<and>
     PresignGetObject e (s3Bucket cfg) key time_Hour = Some url \<and>
     time_Hour = 3600 * 1000000000 \<and>
     response_body (handlerUploadVideo e cfg r st) = Some (VideoBody (v\<lparr>VideoURL := Some url\<rparr>))"
proof -
  let ?H = "handlerUploadVideo e cfg r st"
  from video_cases [of e cfg r st] assms
  obtain i v f st4 where
    i: "uuid_Parse e (PathValue_videoID r) = Some i"
    and v: "find (\<lambda>x. ID x = i) (db st) = Some v"
    and H: "?H = os_Remove (tempName e)
               (handlerUploadVideo_staged e cfg v f ''video/mp4'' (tempName e) st4)"
    and st4: "first_status (trace st4) = None" "db st4 = db st"
    unfolding staging_outcome_def by auto
  let ?S = "handlerUploadVideo_staged e cfg v f ''video/mp4'' (tempName e) st4"
  have S200: "status ?S = Some 200" using assms H by simp
  from staged_cases [OF st4(1), of e cfg v f "''video/mp4''" "tempName e"] S200
  obtain ratio pp st8 where
    S: "?S = os_Remove pp (handlerUploadVideo_processed e cfg v f ''video/mp4''
                              (orientation_dash ratio) pp st8)"
    and st8: "first_status (trace st8) = None" "db st8 = db st4"
    by auto
  let ?P = "handlerUploadVideo_processed e cfg v f ''video/mp4'' (orientation_dash ratio) pp st8"
  let ?key = "orientation_dash ratio @ Sprintf_x e (uuid_New e) @ Ext (Filename f)"
  let ?v' = "v\<lparr>VideoURL := Some (s3Bucket cfg @ '','' @ ?key)\<rparr>"
  have P200: "status ?P = Some 200" using S200 S by simp
  from processed_ok [OF P200 st8(1)] obtain url where
    put: "EvPutObject (s3Bucket cfg) ?key ''video/mp4'' \<in> set (trace ?P)"
    and db: "db ?P = map (\<lambda>x. if ID x = ID v then ?v' else x) (db st8)"
    and url: "PresignGetObject e (s3Bucket cfg) ?key time_Hour = Some url"
    and body: "response_body ?P = Some (VideoBody (v\<lparr>VideoURL := Some url\<rparr>))"
    by blast
  have id: "ID v = i" using v by (rule find_ID)
  have HP: "?H = os_Remove (tempName e) (os_Remove pp ?P)" using H S by simp
  have 1: "EvPutObject (s3Bucket cfg) ?key ''video/mp4'' \<in> set (trace ?H)"
    unfolding HP using put by simp
  have 2: "db ?H = map (\<lambda>x. if ID x = i then ?v' else x) (db st)"
    unfolding HP using db id st8 st4 by simp
  have 3: "find (\<lambda>x. ID x = i) (db ?H) = Some ?v'"
    unfolding 2 using v id by (intro find_updated) simp_all
  have 4: "response_body ?H = Some (VideoBody (v\<lparr>VideoURL := Some url\<rparr>))"
    unfolding HP using body by simp
  have 5: "time_Hour = 3600 * 1000000000" by (simp add: time_Hour_def)
  show ?thesis using i v 1 2 3 4 5 url by blast
qed

theorem presigned_upload_persists_composite_witness:
  "status (handlerUploadVideo example_env example_cfg
             (video_request ''alice'' ''clip.mp4'') example_state) = Some 200 \<and>
   (\<exists>i v key url.
     uuid_Parse example_env (PathValue_videoID (video_request ''alice'' ''clip.mp4'')) = Some i \<and>
     find (\<lambda>x. ID x = i) (db example_state) = Some v \<and>
     EvPutObject (s3Bucket example_cfg) key ''video/mp4''
       \<in> set (trace (handlerUploadVideo example_env example_cfg
                       (video_request ''alice'' ''clip.mp4'') example_state)) \<and>
     db (handlerUploadVideo example_env example_cfg
           (video_request ''alice'' ''clip.mp4'') example_state) =
       map (\<lambda>x. if ID x = i then v\<lparr>VideoURL := Some (s3Bucket example_cfg @ '','' @ key)\<rparr> else x)
         (db example_state) \<and>
     find (\<lambda>x. ID x = i)
       (db (handlerUploadVideo example_env example_cfg
              (video_request ''alice'' ''clip.mp4'') example_state)) =
       Some (v\<lparr>VideoURL := Some (s3Bucket example_cfg @ '','' @ key)\<rparr>) \<and>
     PresignGetObject example_env (s3Bucket example_cfg) key time_Hour = Some url \<and>
     time_Hour = 3600 * 1000000000 \<and>
     response_body (handlerUploadVideo example_env example_cfg
                      (video_request ''alice'' ''clip.mp4'') example_state) =
       Some (VideoBody (v\<lparr>VideoURL := Some url\<rparr>)))"
proof -
  have h: "status (handlerUploadVideo example_env example_cfg
             (video_request ''alice'' ''clip.mp4'') example_state) = Some 200"
    by (simp add: eval_defs)
  show ?thesis
    using h presigned_upload_persists_composite [OF h] by blast
qed

section \<open>Requests of a principal who is not the owner\<close>







section \<open>Properties of the thumbnail handlers\<close>

text \<open>
  C1, as amended. For an authenticated request whose form carries a thumbnail file: in the
  disk-backed handler, a declared content type that parses to a media type other than
  \<^verbatim>\<open>image/jpeg\<close> and \<^verbatim>\<open>image/png\<close> is answered with 400 and no record changes. The data-URL
  handler does not parse the content type and has no list of accepted types. An empty
  declared content type is answered with 400 and no record changes; with a well-formed
  video identifier, a non-empty one is never answered with 400, so there the answer is 400
  exactly when the declared type is empty; and when the read, the lookup, the ownership
  check and the update succeed, the answer is 200 and the thumbnail URL of the record
  becomes the data URL of the declared type, whatever that type is.
\<close>

theorem thumbnail_type_rejected:
  assumes "principal e cfg r = Some u"
    and "MultipartForm r = Some form" and "map_of form ''thumbnail'' = Some f"
  shows "(ParseMediaType e (ContentType f) = Some mt \<and> mt \<noteq> ''image/jpeg'' \<and> mt \<noteq> ''image/png'' \<longrightarrow>
            status (handlerUploadThumbnail e cfg r st) = Some 400 \<and>
            db (handlerUploadThumbnail e cfg r st) = db st) \<and>
         (ContentType f = [] \<longrightarrow>
            status (handlerUploadThumbnail_dataURL e cfg r st) = Some 400 \<and>
            db (handlerUploadThumbnail_dataURL e cfg r st) = db st) \<and>
         (uuid_Parse e (PathValue_videoID r) = Some i \<and> ContentType f \<noteq> [] \<longrightarrow>
            status (handlerUploadThumbnail_dataURL e cfg r st) \<noteq> Some 400) \<and>
         (uuid_Parse e (PathValue_videoID r) = Some i \<and> ContentType f \<noteq> [] \<and>
          \<not> fails e OpReadAll \<and> find (\<lambda>x. ID x = i) (db st) = Some v \<and> UserID v = u \<and>
          \<not> fails e OpUpdateVideo \<longrightarrow>
            status (handlerUploadThumbnail_dataURL e cfg r st) = Some 200 \<and>
            db (handlerUploadThumbnail_dataURL e cfg r st) =
              map (\<lambda>x. if ID x = ID v
                        then v\<lparr>ThumbnailURL :=
                                 Some (''data:'' @ ContentType f @ '';base64,''
                                         @ base64_EncodeToString e (Content f))\<rparr>
                        else x) (db st))"
proof -
  from assms(1) obtain token where t: "GetBearerToken e (Header r) = Some token"
    "ValidateJWT e token (jwtSecret cfg) = Some u" by (rule principalE)
  have disk: "ParseMediaType e (ContentType f) = Some mt \<and> mt \<noteq> ''image/jpeg'' \<and> mt \<noteq> ''image/png'' \<longrightarrow>
            status (handlerUploadThumbnail e cfg r st) = Some 400 \<and>
            db (handlerUploadThumbnail e cfg r st) = db st"
    using t assms(2,3)
    by (simp add: handlerUploadThumbnail_def step_defs Let_def status_def split: option.split)
  have empty: "ContentType f = [] \<longrightarrow>
            status (handlerUploadThumbnail_dataURL e cfg r st) = Some 400 \<and>
            db (handlerUploadThumbnail_dataURL e cfg r st) = db st"
    using t assms(2,3)
    by (simp add: handlerUploadThumbnail_dataURL_def step_defs Let_def status_def
          split: option.split)
  have nonempty: "uuid_Parse e (PathValue_videoID r) = Some i \<and> ContentType f \<noteq> [] \<longrightarrow>
            status (handlerUploadThumbnail_dataURL e cfg r st) \<noteq> Some 400"
    using t assms(2,3)
    by (simp add: handlerUploadThumbnail_dataURL_def step_defs Let_def status_def
          split: option.split)
  have ok: "uuid_Parse e (PathValue_videoID r) = Some i \<and> ContentType f \<noteq> [] \<and>
          \<not> fails e OpReadAll \<and> find (\<lambda>x. ID x = i) (db st) = Some v \<and> UserID v = u \<and>
          \<not> fails e OpUpdateVideo \<longrightarrow>
            status (handlerUploadThumbnail_dataURL e cfg r st) = Some 200 \<and>
            db (handlerUploadThumbnail_dataURL e cfg r st) =
              map (\<lambda>x. if ID x = ID v
                        then v\<lparr>ThumbnailURL :=
                                 Some (''data:'' @ ContentType f @ '';base64,''
                                         @ base64_EncodeToString e (Content f))\<rparr>
                        else x) (db st)"
    using t assms(2,3)
    by (auto simp: handlerUploadThumbnail_dataURL_def step_defs Let_def status_def)
  show ?thesis using disk empty nonempty ok by blast
qed

theorem thumbnail_type_rejected_witness:
  "principal example_env example_cfg (thumbnail_request ''V1'' ''alice'' ''text/plain'') = Some 7 \<and>
   ParseMediaType example_env ''text/plain'' = Some ''text/plain'' \<and>
   status (handlerUploadThumbnail example_env example_cfg
             (thumbnail_request ''V1'' ''alice'' ''text/plain'') example_state) = Some 400 \<and>
   db (handlerUploadThumbnail example_env example_cfg
         (thumbnail_request ''V1'' ''alice'' ''text/plain'') example_state) = db example_state \<and>
   uuid_Parse example_env (PathValue_videoID (thumbnail_request ''V1'' ''alice'' ''text/plain''))
     = Some 1 \<and>
   \<not> fails example_env OpReadAll \<and> \<not> fails example_env OpUpdateVideo \<and>
   find (\<lambda>x. ID x = 1) (db example_state) = Some example_video \<and>
   UserID example_video = 7 \<and>
   status (handlerUploadThumbnail_dataURL example_env example_cfg
             (thumbnail_request ''V1'' ''alice'' ''text/plain'') example_state) \<noteq> Some 400 \<and>
   status (handlerUploadThumbnail_dataURL example_env example_cfg
             (thumbnail_request ''V1'' ''alice'' ''text/plain'') example_state) = Some 200 \<and>
   db (handlerUploadThumbnail_dataURL example_env example_cfg
         (thumbnail_request ''V1'' ''alice'' ''text/plain'') example_state) =
     [example_video\<lparr>ThumbnailURL := Some ''data:text/plain;base64,aGk=''\<rparr>] \<and>
   principal example_env example_cfg (thumbnail_request ''V1'' ''alice'' []) = Some 7 \<and>
   status (handlerUploadThumbnail_dataURL example_env example_cfg
             (thumbnail_request ''V1'' ''alice'' []) example_state) = Some 400 \<and>
   db (handlerUploadThumbnail_dataURL example_env example_cfg
         (thumbnail_request ''V1'' ''alice'' []) example_state) = db example_state"
proof -
  let ?f1 = "\<lparr>Filename = ''t.png'', ContentType = ''text/plain'', Content = ''IMG''\<rparr>"
  let ?f2 = "\<lparr>Filename = ''t.png'', ContentType = [], Content = ''IMG''\<rparr>"
  let ?r1 = "thumbnail_request ''V1'' ''alice'' ''text/plain''"
  let ?r2 = "thumbnail_request ''V1'' ''alice'' []"
  have p1: "principal example_env example_cfg ?r1 = Some 7"
    and p2: "principal example_env example_cfg ?r2 = Some 7"
    by (simp_all add: principal_def example_defs)
  have m: "ParseMediaType example_env ''text/plain'' = Some ''text/plain''"
    by (simp add: example_defs)
  have f1: "MultipartForm ?r1 = Some [(''thumbnail'', ?f1)]"
    and f2: "MultipartForm ?r2 = Some [(''thumbnail'', ?f2)]"
    by (simp_all add: example_defs)
  have g1: "map_of [(''thumbnail'', ?f1)] ''thumbnail'' = Some ?f1"
    and g2: "map_of [(''thumbnail'', ?f2)] ''thumbnail'' = Some ?f2"
    by simp_all
  have i: "uuid_Parse example_env (PathValue_videoID ?r1) = Some 1"
    by (simp add: example_defs)
  have o: "\<not> fails example_env OpReadAll" "\<not> fails example_env OpUpdateVideo"
    by (simp_all add: example_defs)
  have s: "find (\<lambda>x. ID x = 1) (db example_state) = Some example_video"
    and w: "UserID example_video = 7"
    by (simp_all add: example_defs)
  have b: "base64_EncodeToString example_env ''IMG'' = ''aGk=''"
    by (simp add: example_defs)
  have d: "db example_state = [example_video]" "ID example_video = 1"
    by (simp_all add: example_defs)
  note a1 = thumbnail_type_rejected [OF p1 f1 g1, where mt = "''text/plain''" and i = 1
              and v = example_video and st = example_state]
  note a2 = thumbnail_type_rejected [OF p2 f2 g2, where st = example_state]
  show ?thesis
    using p1 p2 m i o s w b d a1 a2 by simp
qed

text \<open>
  The claim as stated fails in the data-URL handler: a thumbnail declared \<^verbatim>\<open>text/plain\<close>,
  sent by the owner, is answered with 200 and the thumbnail URL of the record becomes a
  data URL of that type.
\<close>

theorem thumbnail_type_rejected_counterexample:
  "principal example_env example_cfg (thumbnail_request ''V1'' ''alice'' ''text/plain'') = Some 7 \<and>
   ParseMediaType example_env ''text/plain'' = Some ''text/plain'' \<and>
   status (handlerUploadThumbnail_dataURL example_env example_cfg
             (thumbnail_request ''V1'' ''alice'' ''text/plain'') example_state) = Some 200 \<and>
   map ThumbnailURL (db example_state) = [None] \<and>
   map ThumbnailURL
     (db (handlerUploadThumbnail_dataURL example_env example_cfg
            (thumbnail_request ''V1'' ''alice'' ''text/plain'') example_state)) =
     [Some ''data:text/plain;base64,aGk='']"
  by (simp add: eval_defs principal_def)


text \<open>
  C10. In the disk-backed thumbnail handler, for an authenticated request with a valid
  image whose file is created and written without error: the handler creates the file at
  the derived disk path and writes the uploaded bytes before it looks the record up. When
  the lookup then fails (500) or the record has another owner (401), the file is on disk
  with the uploaded bytes when the handler returns, and no record has changed.
\<close>

theorem thumbnail_file_written_before_lookup:
  assumes "uuid_Parse e (PathValue_videoID r) = Some i"
    and "principal e cfg r = Some u"
    and "MultipartForm r = Some form" and "map_of form ''thumbnail'' = Some f"
    and "ContentType f \<noteq> []"
    and "ParseMediaType e (ContentType f) = Some mt"
    and "mt = ''image/jpeg'' \<or> mt = ''image/png''"
    and "\<not> fails e OpCreate" and "\<not> fails e OpCopy"
    and "p = getAssetDiskPath e (getAssetPath e i (ContentType f))"
  shows "(find (\<lambda>x. ID x = i) (db st) = None \<longrightarrow>
            trace (handlerUploadThumbnail e cfg r st) =
              [EvParseMultipartForm, EvFormFile ''thumbnail'', EvCreate p, EvCopy p,
               EvGetVideo i None, EvRespond 500 (ErrorBody ''Couldn't find video'')] \<and>
            files (handlerUploadThumbnail e cfg r st) p = Some (Content f) \<and>
            db (handlerUploadThumbnail e cfg r st) = db st) \<and>
         (find (\<lambda>x. ID x = i) (db st) = Some v \<and> UserID v \<noteq> u \<longrightarrow>
            trace (handlerUploadThumbnail e cfg r st) =
              [EvParseMultipartForm, EvFormFile ''thumbnail'', EvCreate p, EvCopy p,
               EvGetVideo i (Some v),
               EvRespond 401 (ErrorBody ''Not authorized to update this video'')] \<and>
            files (handlerUploadThumbnail e cfg r st) p = Some (Content f) \<and>
            db (handlerUploadThumbnail e cfg r st) = db st)"
proof -
  from assms(2) obtain token where t: "GetBearerToken e (Header r) = Some token"
    "ValidateJWT e token (jwtSecret cfg) = Some u" by (rule principalE)
  show ?thesis
    using t assms(1,3-10)
    by (auto simp: handlerUploadThumbnail_def step_defs Let_def)
qed

theorem thumbnail_file_written_before_lookup_witness:
  "uuid_Parse example_env (PathValue_videoID (thumbnail_request ''V2'' ''alice'' ''image/png'')) = Some 2 \<and>
   principal example_env example_cfg (thumbnail_request ''V2'' ''alice'' ''image/png'') = Some 7 \<and>
   ParseMediaType example_env ''image/png'' = Some ''image/png'' \<and>
   \<not> fails example_env OpCreate \<and> \<not> fails example_env OpCopy \<and>
   find (\<lambda>x. ID x = 2) (db example_state) = None \<and>
   trace (handlerUploadThumbnail example_env example_cfg
            (thumbnail_request ''V2'' ''alice'' ''image/png'') example_state) =
     [EvParseMultipartForm, EvFormFile ''thumbnail'', EvCreate ''assets/2.png'',
      EvCopy ''assets/2.png'', EvGetVideo 2 None,
      EvRespond 500 (ErrorBody ''Couldn't find video'')] \<and>
   files (handlerUploadThumbnail example_env example_cfg
            (thumbnail_request ''V2'' ''alice'' ''image/png'') example_state) ''assets/2.png'' =
     Some ''IMG'' \<and>
   db (handlerUploadThumbnail example_env example_cfg
         (thumbnail_request ''V2'' ''alice'' ''image/png'') example_state) = db example_state \<and>
   uuid_Parse example_env (PathValue_videoID (thumbnail_request ''V1'' ''bob'' ''image/png'')) = Some 1 \<and>
   principal example_env example_cfg (thumbnail_request ''V1'' ''bob'' ''image/png'') = Some 8 \<and>
   find (\<lambda>x. ID x = 1) (db example_state) = Some example_video \<and>
   UserID example_video \<noteq> 8 \<and>
   trace (handlerUploadThumbnail example_env example_cfg
            (thumbnail_request ''V1'' ''bob'' ''image/png'') example_state) =
     [EvParseMultipartForm, EvFormFile ''thumbnail'', EvCreate ''assets/1.png'',
      EvCopy ''assets/1.png'', EvGetVideo 1 (Some example_video),
      EvRespond 401 (ErrorBody ''Not authorized to update this video'')] \<and>
   files (handlerUploadThumbnail example_env example_cfg
            (thumbnail_request ''V1'' ''bob'' ''image/png'') example_state) ''assets/1.png'' =
     Some ''IMG'' \<and>
   db (handlerUploadThumbnail example_env example_cfg
         (thumbnail_request ''V1'' ''bob'' ''image/png'') example_state) = db example_state"
proof -
  let ?f = "\<lparr>Filename = ''t.png'', ContentType = ''image/png'', Content = ''IMG''\<rparr>"
  let ?r1 = "thumbnail_request ''V2'' ''alice'' ''image/png''"
  let ?r2 = "thumbnail_request ''V1'' ''bob'' ''image/png''"
  have i1: "uuid_Parse example_env (PathValue_videoID ?r1) = Some 2"
    and i2: "uuid_Parse example_env (PathValue_videoID ?r2) = Some 1"
    by (simp_all add: example_defs)
  have u1: "principal example_env example_cfg ?r1 = Some 7"
    and u2: "principal example_env example_cfg ?r2 = Some 8"
    by (simp_all add: principal_def example_defs)
  have m1: "MultipartForm ?r1 = Some [(''thumbnail'', ?f)]"
    and m2: "MultipartForm ?r2 = Some [(''thumbnail'', ?f)]"
    by (simp_all add: example_defs)
  have g: "map_of [(''thumbnail'', ?f)] ''thumbnail'' = Some ?f" by simp
  have c: "ContentType ?f \<noteq> []" by simp
  have t: "ParseMediaType example_env (ContentType ?f) = Some ''image/png''"
    by (simp add: example_defs)
  have a: "''image/png'' = ''image/jpeg'' \<or> ''image/png'' = ''image/png''" by simp
  have o: "\<not> fails example_env OpCreate" "\<not> fails example_env OpCopy"
    by (simp_all add: example_defs)
  have p1: "''assets/2.png'' =
      getAssetDiskPath example_env (getAssetPath example_env 2 (ContentType ?f))"
    and p2: "''assets/1.png'' =
      getAssetDiskPath example_env (getAssetPath example_env 1 (ContentType ?f))"
    by code_simp+
  have n: "find (\<lambda>x. ID x = 2) (db example_state) = None"
    and s: "find (\<lambda>x. ID x = 1) (db example_state) = Some example_video"
    and w: "UserID example_video \<noteq> 8"
    by (simp_all add: example_defs)
  note c1 = thumbnail_file_written_before_lookup
              [OF i1 u1 m1 g c t a o p1, where st = example_state, THEN conjunct1, THEN mp, OF n]
  note c2 = thumbnail_file_written_before_lookup
              [OF i2 u2 m2 g c t a o p2, where st = example_state and v = example_video,
               THEN conjunct2, THEN mp, OF conjI [OF s w]]
  show ?thesis
    using i1 i2 u1 u2 t o n s w c1 c2 by simp
qed

text \<open>
  A form without the file: the thumbnail handlers write the response and panic, whatever
  the rest of the request; the video handler writes the response and returns.
\<close>

lemma thumbnail_missing_file_panics:
  assumes "uuid_Parse e (PathValue_videoID r) = Some i" and "principal e cfg r = Some u"
    and "MultipartForm r = Some form" and "map_of form ''thumbnail'' = None"
  shows "trace (handlerUploadThumbnail e cfg r st) =
           [EvParseMultipartForm, EvFormFile ''thumbnail'',
            EvRespond 400 (ErrorBody ''Couldn't parse thumbnail''), EvPanic]"
    and "trace (handlerUploadThumbnail_dataURL e cfg r st) =
           [EvParseMultipartForm, EvFormFile ''thumbnail'',
            EvRespond 400 (ErrorBody ''Couldn't parse thumbnail''), EvPanic]"
proof -
  from assms(2) obtain token where t: "GetBearerToken e (Header r) = Some token"
    "ValidateJWT e token (jwtSecret cfg) = Some u" by (rule principalE)
  show "trace (handlerUploadThumbnail e cfg r st) =
           [EvParseMultipartForm, EvFormFile ''thumbnail'',
            EvRespond 400 (ErrorBody ''Couldn't parse thumbnail''), EvPanic]"
    using t assms(1,3,4) by (simp add: handlerUploadThumbnail_def step_defs)
  show "trace (handlerUploadThumbnail_dataURL e cfg r st) =
           [EvParseMultipartForm, EvFormFile ''thumbnail'',
            EvRespond 400 (ErrorBody ''Couldn't parse thumbnail''), EvPanic]"
    using t assms(1,3,4) by (simp add: handlerUploadThumbnail_dataURL_def step_defs)
qed

lemma video_missing_file_returns:
  assumes "uuid_Parse e (PathValue_videoID r) = Some i" and "principal e cfg r = Some u"
    and "find (\<lambda>x. ID x = i) (db st) = Some v" and "UserID v = u"
    and "\<not> maxUploadSize < BodySize r"
    and "MultipartForm r = Some form" and "map_of form ''video'' = None"
  shows "trace (handlerUploadVideo e cfg r st) =
           [EvGetVideo i (Some v), EvParseMultipartForm, EvFormFile ''video'',
            EvRespond 400 (ErrorBody ''Missing 'video' file in form data'')]"
proof -
  from assms(2) obtain token where t: "GetBearerToken e (Header r) = Some token"
    "ValidateJWT e token (jwtSecret cfg) = Some u" by (rule principalE)
  show ?thesis
    using t assms(1,3-7) by (simp add: handlerUploadVideo_def step_defs Let_def)
qed

text \<open>
  C2. The request has a valid identifier and credential and a form that parses and has no
  file in the field \<^verbatim>\<open>thumbnail\<close>. Both thumbnail handlers write the 400 response and do
  not return: with no \<^verbatim>\<open>return\<close> in that branch, control reaches
  \<^verbatim>\<open>defer multipartFile.Close()\<close> on the nil file and the handler panics.
\<close>

theorem thumbnail_missing_file_falls_through:
  "trace (handlerUploadThumbnail example_env example_cfg request_without_file example_state) =
     [EvParseMultipartForm, EvFormFile ''thumbnail'',
      EvRespond 400 (ErrorBody ''Couldn't parse thumbnail''), EvPanic] \<and>
   trace (handlerUploadThumbnail_dataURL example_env example_cfg request_without_file example_state) =
     [EvParseMultipartForm, EvFormFile ''thumbnail'',
      EvRespond 400 (ErrorBody ''Couldn't parse thumbnail''), EvPanic] \<and>
   panicked (handlerUploadThumbnail example_env example_cfg request_without_file example_state) \<and>
   panicked (handlerUploadThumbnail_dataURL example_env example_cfg request_without_file example_state)"
  by (simp add: eval_defs panicked_def)


text \<open>
  A failed lookup: 404 in the three video handlers, 500 in the thumbnail handler.
\<close>

lemma video_unknown_video_404:
  assumes "uuid_Parse e (PathValue_videoID r) = Some i" and "principal e cfg r = Some u"
    and "find (\<lambda>x. ID x = i) (db st) = None"
  shows "status (handlerUploadVideo_direct e cfg r st) = Some 404"
    and "status (handlerUploadVideo_aspect e cfg r st) = Some 404"
    and "status (handlerUploadVideo e cfg r st) = Some 404"
proof -
  from assms(2) obtain token where t: "GetBearerToken e (Header r) = Some token"
    "ValidateJWT e token (jwtSecret cfg) = Some u" by (rule principalE)
  show "status (handlerUploadVideo_direct e cfg r st) = Some 404"
    using t assms(1,3) by (simp add: handlerUploadVideo_direct_def step_defs status_def Let_def)
  show "status (handlerUploadVideo_aspect e cfg r st) = Some 404"
    using t assms(1,3) by (simp add: handlerUploadVideo_aspect_def step_defs status_def Let_def)
  show "status (handlerUploadVideo e cfg r st) = Some 404"
    using t assms(1,3) by (simp add: handlerUploadVideo_def step_defs status_def Let_def)
qed

lemma thumbnail_unknown_video_any:
  assumes "EvGetVideo i None \<in> set (trace (handlerUploadThumbnail e cfg r st))"
  shows "status (handlerUploadThumbnail e cfg r st) = Some 500"
  using assms
  by (auto simp: handlerUploadThumbnail_def step_defs Let_def status_def
        split: option.splits if_splits)

text \<open>
  C5. The identifier \<^verbatim>\<open>V2\<close> parses and names no record. Both thumbnail handlers answer the
  failed lookup with 500 and the message \<^verbatim>\<open>Couldn't find video\<close>; the video handlers answer
  the same failure with 404.
\<close>

theorem thumbnail_unknown_video_500:
  "find (\<lambda>v. ID v = 2) (db example_state) = None \<and>
   uuid_Parse example_env ''V2'' = Some 2 \<and>
   status (handlerUploadThumbnail example_env example_cfg
             (thumbnail_request ''V2'' ''alice'' ''image/png'') example_state) = Some 500 \<and>
   response_body (handlerUploadThumbnail example_env example_cfg
             (thumbnail_request ''V2'' ''alice'' ''image/png'') example_state) =
     Some (ErrorBody ''Couldn't find video'') \<and>
   status (handlerUploadThumbnail_dataURL example_env example_cfg
             (thumbnail_request ''V2'' ''alice'' ''image/png'') example_state) = Some 500 \<and>
   response_body (handlerUploadThumbnail_dataURL example_env example_cfg
             (thumbnail_request ''V2'' ''alice'' ''image/png'') example_state) =
     Some (ErrorBody ''Couldn't find video'')"
  by (simp add: eval_defs)


section \<open>Cleanup of the fast-start copy\<close>

text \<open>
  The staging temp file is gone when the handler returns, on every branch; the fast-start
  copy is gone once the handler has passed the error check of the remux step.
\<close>

lemma temp_file_removed:
  assumes "files st (tempName e) = None"
  shows "files (handlerUploadVideo e cfg r st) (tempName e) = None"
  using assms
  by (simp add: handlerUploadVideo_def step_defs Let_def split: option.split)

lemma processing_file_removed_after_remux:
  assumes "processVideoForFastStart e tmp sa = (Inr pp, sb)"
  shows "files (os_Remove pp (handlerUploadVideo_processed e cfg v f mt pre pp sb)) pp = None"
  by simp

text \<open>
  C6. The remux tool exits with an error after it has written a partial output. The
  handler answers 500 and returns before the removal of the \<^verbatim>\<open>.processing\<close> file is
  deferred: the staging temp file is gone when the handler returns, the partial
  \<^verbatim>\<open>.processing\<close> file is still on disk.
\<close>

theorem remux_failure_leaves_processing_file:
  "files example_state ''/tmp/tubely-upload-1.mp4.processing'' = None \<and>
   ffmpeg example_env_remux_fails ''/tmp/tubely-upload-1.mp4''
     ''/tmp/tubely-upload-1.mp4.processing'' = (False, Some ''partial'') \<and>
   status (handlerUploadVideo example_env_remux_fails example_cfg
             (video_request ''alice'' ''clip.mp4'') example_state) = Some 500 \<and>
   response_body (handlerUploadVideo example_env_remux_fails example_cfg
             (video_request ''alice'' ''clip.mp4'') example_state) =
     Some (ErrorBody ''Failed to process video'') \<and>
   files (handlerUploadVideo example_env_remux_fails example_cfg
            (video_request ''alice'' ''clip.mp4'') example_state)
     ''/tmp/tubely-upload-1.mp4'' = None \<and>
   files (handlerUploadVideo example_env_remux_fails example_cfg
            (video_request ''alice'' ''clip.mp4'') example_state)
     ''/tmp/tubely-upload-1.mp4.processing'' = Some ''partial''"
  by (simp add: eval_defs)

end
